theory Spec2Isabelle
  imports Main "HOL-Library.Word"
begin

unbundle bit_operations_syntax

section \<open>fs/crypto/keyinfo.c: key management for filesystem encryption\<close>

text \<open>
  A shallow embedding of \<^verbatim>\<open>fs/crypto/keyinfo.c\<close>. Kernel services the file calls
  (keyring, crypto API, allocator, the filesystem's callbacks) are not part of the file;
  their outcomes are read from a record \<open>env\<close>, and every call is logged in the
  \<open>trace\<close> of the kernel state, in program order. Constants and inline helpers of
  \<^verbatim>\<open>fscrypt_private.h\<close> and the uapi headers are the fields of a record \<open>hdr\<close>.
\<close>

subsection \<open>Data\<close>

type_synonym u8 = "8 word"
type_synonym bytes = "u8 list"

text \<open>Negative errno values, as returned through \<^verbatim>\<open>int\<close> or \<^verbatim>\<open>ERR_PTR\<close>.\<close>

datatype errno = EPERM | ENOMEM | EINVAL | ENOKEY | EOTHER nat

text \<open>An \<^verbatim>\<open>int\<close> status: \<open>Zero\<close> is \<^verbatim>\<open>0\<close>, \<open>Neg e\<close> is \<^verbatim>\<open>-e\<close>.\<close>

datatype rc = Zero | Neg errno

text \<open>\<^verbatim>\<open>struct fscrypt_mode\<close>; \<^verbatim>\<open>logged_impl_name\<close> is the one mutable field and lives
  in the kernel state. A pointer to a mode is its index in \<^verbatim>\<open>available_modes\<close>.\<close>

record fscrypt_mode =
  friendly_name :: string
  cipher_str :: string
  keysize :: nat
  ivsize :: nat
  needs_essiv :: bool
  inline_encryption :: bool

text \<open>\<^verbatim>\<open>struct fscrypt_context\<close>, the policy record stored with the inode.\<close>

record fscrypt_context =
  format :: u8
  contents_encryption_mode :: u8
  filenames_encryption_mode :: u8
  flags :: u8
  master_key_descriptor :: bytes
  nonce :: bytes
  knox_flags :: "32 word"

text \<open>\<^verbatim>\<open>struct fscrypt_key\<close>, the payload of a keyring key.\<close>

record fscrypt_key =
  fk_mode :: "32 word"
  fk_raw :: bytes
  fk_size :: nat

record user_key_payload =
  datalen :: nat
  data :: fscrypt_key

text \<open>\<^verbatim>\<open>struct key\<close>: \<open>payload = None\<close> is a key revoked before its semaphore was taken.\<close>

record key =
  description :: string
  payload :: "user_key_payload option"

text \<open>A transform of the crypto API: the algorithm it was allocated for and the key set
  on it (\<open>None\<close> before \<^verbatim>\<open>setkey\<close>).\<close>

record tfm =
  tfm_alg :: string
  tfm_key :: "bytes option"

text \<open>\<^verbatim>\<open>struct fscrypt_master_key\<close>; \<^verbatim>\<open>mk_node\<close> is the membership in a bucket of the
  table.\<close>

record fscrypt_master_key =
  mk_refcount :: nat
  mk_mode :: "nat option"
  mk_ctfm :: "tfm option"
  mk_descriptor :: bytes
  mk_raw :: bytes

text \<open>\<^verbatim>\<open>struct fscrypt_info\<close>. \<open>ci_master_key\<close> is a pointer to a table entry.\<close>

record fscrypt_info =
  ci_flags :: u8
  ci_data_mode :: u8
  ci_filename_mode :: u8
  ci_master_key_descriptor :: bytes
  ci_nonce :: bytes
  ci_mode :: "nat option"
  ci_master_key :: "nat option"
  ci_ctfm :: "tfm option"
  ci_essiv_tfm :: "tfm option"
  ci_raw_key :: bytes
  ci_sdp_info :: "nat option"

datatype file_type = S_IFREG | S_IFDIR | S_IFLNK | S_IFCHR | S_IFBLK | S_IFIFO | S_IFSOCK

text \<open>\<^verbatim>\<open>struct inode\<close> with the parts of its super block the file reads.\<close>

record inode =
  i_mode :: file_type
  i_ino :: nat
  i_crypt_info :: "fscrypt_info option"
  s_cop_key_prefix :: "string option"
  s_cop_flags :: nat

subsection \<open>Headers\<close>

text \<open>Constants and inline helpers declared in \<^verbatim>\<open>fscrypt_private.h\<close>,
  \<^verbatim>\<open>uapi/linux/fs.h\<close> and \<^verbatim>\<open>linux/hashtable.h\<close>. \<open>offsetofend_iv_nonce\<close> is
  \<^verbatim>\<open>offsetofend(union fscrypt_iv, nonce)\<close>, \<open>sizeof_long\<close> is \<^verbatim>\<open>sizeof(unsigned long)\<close>
  and \<open>hash_min\<close> maps the bytes of the \<^verbatim>\<open>unsigned long\<close> hash key to a bucket.\<close>

record hdr =
  FS_KEY_DESCRIPTOR_SIZE :: nat
  FS_KEY_DERIVATION_NONCE_SIZE :: nat
  FS_MAX_KEY_SIZE :: nat
  sizeof_fscrypt_key :: nat
  sizeof_fscrypt_context :: nat
  FS_KEY_DESC_PREFIX :: string
  FS_ENCRYPTION_CONTEXT_FORMAT_V1 :: u8
  FS_POLICY_FLAGS_VALID :: u8
  FS_POLICY_FLAG_DIRECT_KEY :: u8
  offsetofend_iv_nonce :: nat
  FSCRYPT_MAX_IV_SIZE :: nat
  FS_ENCRYPTION_MODE_AES_256_XTS :: u8
  FS_ENCRYPTION_MODE_AES_256_CTS :: u8
  FS_ENCRYPTION_MODE_AES_128_CBC :: u8
  FS_ENCRYPTION_MODE_AES_128_CTS :: u8
  FS_ENCRYPTION_MODE_ADIANTUM :: u8
  FS_ENCRYPTION_MODE_PRIVATE :: u8
  fscrypt_valid_enc_modes :: "u8 \<Rightarrow> u8 \<Rightarrow> bool"
  sizeof_long :: nat
  hash_min :: "bytes \<Rightarrow> nat"

text \<open>Modelled from the spec: \<^verbatim>\<open>crypto/sha.h\<close> and \<^verbatim>\<open>crypto/aes.h\<close> are not among the
  sources; the ESSIV salt is a SHA-256 digest (32 bytes) and the block size of AES is
  16 bytes.\<close>

definition SHA256_DIGEST_SIZE :: nat where
  "SHA256_DIGEST_SIZE = 32"

definition AES_BLOCK_SIZE :: nat where
  "AES_BLOCK_SIZE = 16"

subsection \<open>The environment and the kernel state\<close>

datatype warning =
    W_invalid_payload | W_too_short | W_unsupported_modes | W_ice_unavailable
  | W_direct_key_ivsize | W_direct_key_modes | W_alloc_transform | W_alloc_sha256
  | W_essiv_init

datatype event =
    Request_key string | Down_read | Up_read | Key_put
  | Crypto_alloc_skcipher string | Skcipher_request_alloc | Crypto_skcipher_setkey
  | Crypto_skcipher_encrypt | Skcipher_request_free | Crypto_free_skcipher
  | Crypto_alloc_cipher string | Crypto_cipher_setkey | Crypto_free_cipher
  | Crypto_alloc_shash string | Crypto_shash_digest | Crypto_free_shash
  | Spin_lock | Spin_unlock | Hash_add nat nat | Hash_del nat | Refcount_inc nat
  | Refcount_dec nat
  | Kzalloc_master_key | Kfree_master_key nat fscrypt_master_key
  | Kmem_cache_zalloc | Kmem_cache_free fscrypt_info
  | Kmalloc nat | Kfree_buffer bytes
  | Fscrypt_initialize | Get_context | Cmpxchg_i_crypt_info
  | Fscrypt_warn warning | Pr_info | Warn_once | Warn_on
  | Sdp_call

text \<open>What the kernel services answer during one call into the file.\<close>

record env =
  kasprintf_ok :: "string \<Rightarrow> bool"
  request_key :: "string \<Rightarrow> errno + key"
  crypto_alloc_skcipher :: "string \<Rightarrow> rc"
  skcipher_request_alloc_ok :: bool
  crypto_skcipher_setkey :: "string \<Rightarrow> bytes \<Rightarrow> rc"
  ecb_aes_encrypt :: "bytes \<Rightarrow> bytes \<Rightarrow> bytes"
  crypto_wait_req :: rc
  crypto_alloc_cipher :: "string \<Rightarrow> rc"
  crypto_cipher_setkey :: "string \<Rightarrow> bytes \<Rightarrow> rc"
  crypto_alloc_shash :: "string \<Rightarrow> rc"
  sha256 :: "bytes \<Rightarrow> bytes"
  crypto_shash_digest :: rc
  stack_salt :: bytes
  kzalloc_master_key :: "nat option"
  kmem_cache_zalloc_ok :: bool
  kmalloc :: "nat \<Rightarrow> bytes option"
  fscrypt_initialize :: "nat \<Rightarrow> rc"
  get_context :: "errno + nat \<times> fscrypt_context"
  fscrypt_dummy_context_enabled :: bool
  IS_ENCRYPTED :: bool
  fscrypt_is_ice_capable :: bool
  fscrypt_should_be_processed_by_ice :: bool
  racing_i_crypt_info :: "fscrypt_info option"
  sdp_only_flag :: "32 word \<Rightarrow> bool"
  fscrypt_sdp_alloc_sdp_info :: "nat option"
  fscrypt_sdp_update_sdp_info :: rc
  fscrypt_sdp_is_classified :: bool
  fscrypt_sdp_is_uninitialized :: bool
  fscrypt_sdp_is_sensitive :: bool
  fscrypt_sdp_is_native :: bool
  fscrypt_sdp_derive_uninitialized_dek :: "nat \<Rightarrow> rc \<times> bytes"
  fscrypt_sdp_derive_dek :: "nat \<Rightarrow> rc \<times> bytes"
  fscrypt_sdp_derive_fek :: "nat \<Rightarrow> rc \<times> bytes"

text \<open>The globals of the file: the table \<^verbatim>\<open>fscrypt_master_keys\<close> (bucket to chain of
  entry addresses, newest first), the live \<^verbatim>\<open>struct fscrypt_master_key\<close> objects by
  address, \<^verbatim>\<open>essiv_hash_tfm\<close>, the \<^verbatim>\<open>logged_impl_name\<close> flag of every mode, and the
  log of calls.\<close>

record kstate =
  fscrypt_master_keys :: "nat \<Rightarrow> nat list"
  mk_objs :: "nat \<Rightarrow> fscrypt_master_key option"
  essiv_hash_tfm :: "tfm option"
  logged_impl_name :: "nat \<Rightarrow> bool"
  trace :: "event list"

definition emit :: "event \<Rightarrow> kstate \<Rightarrow> kstate" where
  "emit ev s = s\<lparr>trace := trace s @ [ev]\<rparr>"

text \<open>\<^verbatim>\<open>memcpy(dst, src, n)\<close> and \<^verbatim>\<open>memset(dst, 0, n)\<close> on a buffer held as a list.\<close>

definition memcpy :: "bytes \<Rightarrow> bytes \<Rightarrow> nat \<Rightarrow> bytes" where
  "memcpy dst src n = take n src @ drop n dst"

definition memzero :: "bytes \<Rightarrow> nat \<Rightarrow> bytes" where
  "memzero dst n = replicate n 0 @ drop n dst"

text \<open>The \<^verbatim>\<open>%*phN\<close> format of \<^verbatim>\<open>kasprintf\<close>: lower-case hex, no separator.\<close>

definition hex_digit :: "nat \<Rightarrow> char" where
  "hex_digit n = ''0123456789abcdef'' ! n"

definition hex_byte :: "u8 \<Rightarrow> string" where
  "hex_byte b = [hex_digit (unat b div 16), hex_digit (unat b mod 16)]"

definition phN :: "bytes \<Rightarrow> string" where
  "phN bs = concat (map hex_byte bs)"

subsection \<open>Key derivation\<close>

text \<open>\<^verbatim>\<open>derive_key_aes\<close>: encrypt the first \<^verbatim>\<open>derived_keysize\<close> bytes of the master key
  with \<^verbatim>\<open>ecb(aes)\<close>, the nonce of the context being the AES key. The buffer
  \<^verbatim>\<open>derived_key\<close> is passed in and returned. At \<^verbatim>\<open>out\<close> the two frees are no-ops on
  \<^verbatim>\<open>NULL\<close> and are logged only for an object that exists.\<close>

definition derive_key_aes ::
  "hdr \<Rightarrow> env \<Rightarrow> bytes \<Rightarrow> fscrypt_context \<Rightarrow> bytes \<Rightarrow> nat \<Rightarrow> kstate \<Rightarrow> (rc \<times> bytes) \<times> kstate" where
  "derive_key_aes h e master_key ctx derived_key derived_keysize s =
    (let s = emit (Crypto_alloc_skcipher ''ecb(aes)'') s in
     case crypto_alloc_skcipher e ''ecb(aes)'' of
       Neg err \<Rightarrow> ((Neg err, derived_key), s)
     | Zero \<Rightarrow>
         let s = emit Skcipher_request_alloc s in
         if \<not> skcipher_request_alloc_ok e
         then ((Neg ENOMEM, derived_key), emit Crypto_free_skcipher s)
         else
           let k = take (FS_KEY_DERIVATION_NONCE_SIZE h) (nonce ctx);
               s = emit Crypto_skcipher_setkey s
           in case crypto_skcipher_setkey e ''ecb(aes)'' k of
                Neg err \<Rightarrow>
                  ((Neg err, derived_key),
                   emit Crypto_free_skcipher (emit Skcipher_request_free s))
              | Zero \<Rightarrow>
                  let s = emit Crypto_skcipher_encrypt s;
                      res = crypto_wait_req e;
                      derived_key =
                        (case res of
                           Zero \<Rightarrow>
                             memcpy derived_key
                               (ecb_aes_encrypt e k (take derived_keysize master_key))
                               derived_keysize
                         | Neg err \<Rightarrow> derived_key)
                  in ((res, derived_key),
                      emit Crypto_free_skcipher (emit Skcipher_request_free s)))"

text \<open>The label \<^verbatim>\<open>invalid\<close> of \<^verbatim>\<open>find_and_lock_process_key\<close>.\<close>

definition invalid :: "kstate \<Rightarrow> (errno + key \<times> fscrypt_key) \<times> kstate" where
  "invalid s = (Inl ENOKEY, emit Key_put (emit Up_read s))"

text \<open>\<^verbatim>\<open>find_and_lock_process_key\<close>: on success the key is returned read-locked, with
  its validated payload.\<close>

definition find_and_lock_process_key ::
  "hdr \<Rightarrow> env \<Rightarrow> string \<Rightarrow> bytes \<Rightarrow> nat \<Rightarrow> kstate \<Rightarrow> (errno + key \<times> fscrypt_key) \<times> kstate" where
  "find_and_lock_process_key h e prefix descriptor min_keysize s =
    (let descr = prefix @ phN (take (FS_KEY_DESCRIPTOR_SIZE h) descriptor) in
     if \<not> kasprintf_ok e descr then (Inl ENOMEM, s)
     else
       let s = emit (Request_key descr) s in
       case request_key e descr of
         Inl err \<Rightarrow> (Inl err, s)
       | Inr k \<Rightarrow>
           let s = emit Down_read s in
           case payload k of
             None \<Rightarrow> invalid s
           | Some ukp \<Rightarrow>
               let pl = data ukp in
               if datalen ukp \<noteq> sizeof_fscrypt_key h \<or> fk_size pl < 1 \<or>
                  fk_size pl > FS_MAX_KEY_SIZE h
               then invalid (emit (Fscrypt_warn W_invalid_payload) s)
               else if fk_size pl < min_keysize
               then invalid (emit (Fscrypt_warn W_too_short) s)
               else (Inr (k, pl), s))"

subsection \<open>Modes\<close>

text \<open>An element of \<^verbatim>\<open>available_modes\<close> that no initializer names is zero.\<close>

definition zero_mode :: fscrypt_mode where
  "zero_mode = \<lparr>friendly_name = [], cipher_str = [], keysize = 0, ivsize = 0,
     needs_essiv = False, inline_encryption = False\<rparr>"

text \<open>The table \<^verbatim>\<open>available_modes\<close>, by index. Were two of the header's mode constants
  equal, the later designated initializer would win, so the last one is tested first.
  The callers index the table only after \<^verbatim>\<open>fscrypt_valid_enc_modes\<close>; an index past the
  last initializer is outside the array and reads as zero here.\<close>

definition available_modes :: "hdr \<Rightarrow> nat \<Rightarrow> fscrypt_mode" where
  "available_modes h i =
    (if i = unat (FS_ENCRYPTION_MODE_PRIVATE h) then
       \<lparr>friendly_name = ''ice'', cipher_str = ''xts(aes)'', keysize = 64, ivsize = 16,
        needs_essiv = False, inline_encryption = True\<rparr>
     else if i = unat (FS_ENCRYPTION_MODE_ADIANTUM h) then
       \<lparr>friendly_name = ''Adiantum'', cipher_str = ''adiantum(xchacha12,aes)'',
        keysize = 32, ivsize = 32, needs_essiv = False, inline_encryption = False\<rparr>
     else if i = unat (FS_ENCRYPTION_MODE_AES_128_CTS h) then
       \<lparr>friendly_name = ''AES-128-CTS-CBC'', cipher_str = ''cts(cbc(aes))'',
        keysize = 16, ivsize = 16, needs_essiv = False, inline_encryption = False\<rparr>
     else if i = unat (FS_ENCRYPTION_MODE_AES_128_CBC h) then
       \<lparr>friendly_name = ''AES-128-CBC'', cipher_str = ''cbc(aes)'',
        keysize = 16, ivsize = 16, needs_essiv = True, inline_encryption = False\<rparr>
     else if i = unat (FS_ENCRYPTION_MODE_AES_256_CTS h) then
       \<lparr>friendly_name = ''AES-256-CTS-CBC'', cipher_str = ''cts(cbc(aes))'',
        keysize = 32, ivsize = 16, needs_essiv = False, inline_encryption = False\<rparr>
     else if i = unat (FS_ENCRYPTION_MODE_AES_256_XTS h) then
       \<lparr>friendly_name = ''AES-256-XTS'', cipher_str = ''xts(aes)'',
        keysize = 64, ivsize = 16, needs_essiv = False, inline_encryption = False\<rparr>
     else zero_mode)"

text \<open>\<^verbatim>\<open>select_encryption_mode\<close> returns a pointer into \<^verbatim>\<open>available_modes\<close> (the index)
  or \<^verbatim>\<open>ERR_PTR(-EINVAL)\<close>. \<^verbatim>\<open>IS_ERR(mode)\<close> is false for the address of an array
  element, so that branch is never taken. \<^verbatim>\<open>WARN_ONCE\<close> logs and execution goes on.\<close>

definition select_encryption_mode ::
  "hdr \<Rightarrow> env \<Rightarrow> fscrypt_info \<Rightarrow> inode \<Rightarrow> kstate \<Rightarrow> (errno + nat) \<times> kstate" where
  "select_encryption_mode h e ci inode s =
    (if \<not> fscrypt_valid_enc_modes h (ci_data_mode ci) (ci_filename_mode ci)
     then (Inl EINVAL, emit (Fscrypt_warn W_unsupported_modes) s)
     else if i_mode inode = S_IFREG then
       let mode = unat (ci_data_mode ci) in
       if inline_encryption (available_modes h mode) \<and> \<not> fscrypt_is_ice_capable e
       then (Inl EINVAL, emit (Fscrypt_warn W_ice_unavailable) s)
       else (Inr mode, s)
     else if i_mode inode = S_IFDIR \<or> i_mode inode = S_IFLNK
     then (Inr (unat (ci_filename_mode ci)), s)
     else (Inl EINVAL, emit Warn_once s))"

text \<open>The first statements of \<^verbatim>\<open>find_and_derive_key\<close>: the lookup under
  \<^verbatim>\<open>FS_KEY_DESC_PREFIX\<close> and, when that gives \<^verbatim>\<open>ERR_PTR(-ENOKEY)\<close> and the filesystem
  has a \<^verbatim>\<open>key_prefix\<close>, the lookup under that prefix.\<close>

definition find_master_key ::
  "hdr \<Rightarrow> env \<Rightarrow> inode \<Rightarrow> fscrypt_context \<Rightarrow> fscrypt_mode \<Rightarrow> kstate \<Rightarrow> (errno + key \<times> fscrypt_key) \<times> kstate" where
  "find_master_key h e inode ctx mode s =
    (let (k, s) = find_and_lock_process_key h e (FS_KEY_DESC_PREFIX h)
                    (master_key_descriptor ctx) (keysize mode) s
     in if k = Inl ENOKEY \<and> s_cop_key_prefix inode \<noteq> None
        then find_and_lock_process_key h e (the (s_cop_key_prefix inode))
               (master_key_descriptor ctx) (keysize mode) s
        else (k, s))"

text \<open>\<^verbatim>\<open>find_and_derive_key\<close>: find the master key, then derive the inode's key into
  the buffer \<^verbatim>\<open>derived_key\<close>.\<close>

definition find_and_derive_key ::
  "hdr \<Rightarrow> env \<Rightarrow> inode \<Rightarrow> fscrypt_context \<Rightarrow> bytes \<Rightarrow> fscrypt_mode \<Rightarrow> kstate \<Rightarrow> (rc \<times> bytes) \<times> kstate" where
  "find_and_derive_key h e inode ctx derived_key mode s =
    (case find_master_key h e inode ctx mode s of
       (Inl err, s) \<Rightarrow> ((Neg err, derived_key), s)
     | (Inr (ky, pl), s) \<Rightarrow>
         let (r, s) =
           (if flags ctx AND FS_POLICY_FLAG_DIRECT_KEY h \<noteq> 0 then
              if ivsize mode < offsetofend_iv_nonce h
              then ((Neg EINVAL, derived_key), emit (Fscrypt_warn W_direct_key_ivsize) s)
              else if contents_encryption_mode ctx \<noteq> filenames_encryption_mode ctx
              then ((Neg EINVAL, derived_key), emit (Fscrypt_warn W_direct_key_modes) s)
              else ((Zero, memcpy derived_key (fk_raw pl) (keysize mode)), s)
            else if inline_encryption mode
            then ((Zero, memcpy derived_key (fk_raw pl) (keysize mode)), s)
            else derive_key_aes h e (fk_raw pl) ctx derived_key (keysize mode) s)
         in (r, emit Key_put (emit Up_read s)))"

subsection \<open>Cipher handles and the table of master keys\<close>

text \<open>\<^verbatim>\<open>allocate_skcipher_for_mode\<close>; \<^verbatim>\<open>mode\<close> is a pointer into \<^verbatim>\<open>available_modes\<close>.\<close>

definition allocate_skcipher_for_mode ::
  "hdr \<Rightarrow> env \<Rightarrow> nat \<Rightarrow> bytes \<Rightarrow> inode \<Rightarrow> kstate \<Rightarrow> (errno + tfm) \<times> kstate" where
  "allocate_skcipher_for_mode h e mode raw_key inode s =
    (let m = available_modes h mode;
         s = emit (Crypto_alloc_skcipher (cipher_str m)) s
     in case crypto_alloc_skcipher e (cipher_str m) of
          Neg err \<Rightarrow> (Inl err, emit (Fscrypt_warn W_alloc_transform) s)
        | Zero \<Rightarrow>
            let s = (if \<not> logged_impl_name s mode
                     then emit Pr_info
                            (s\<lparr>logged_impl_name := (logged_impl_name s)(mode := True)\<rparr>)
                     else s);
                s = emit Crypto_skcipher_setkey s
            in case crypto_skcipher_setkey e (cipher_str m) (take (keysize m) raw_key) of
                 Neg err \<Rightarrow> (Inl err, emit Crypto_free_skcipher s)
               | Zero \<Rightarrow>
                   (Inr \<lparr>tfm_alg = cipher_str m,
                         tfm_key = Some (take (keysize m) raw_key)\<rparr>, s))"

text \<open>Modelled from the spec: \<^verbatim>\<open>kzfree\<close> (mm/slab_common.c) is not among the sources;
  the memory is zeroed, then freed. The event records what the memory holds when it is
  given back.\<close>

definition zeroed_master_key :: "fscrypt_master_key \<Rightarrow> fscrypt_master_key" where
  "zeroed_master_key m =
     \<lparr>mk_refcount = 0, mk_mode = None, mk_ctfm = None,
      mk_descriptor = memzero (mk_descriptor m) (length (mk_descriptor m)),
      mk_raw = memzero (mk_raw m) (length (mk_raw m))\<rparr>"

definition kzfree_master_key :: "nat \<Rightarrow> kstate \<Rightarrow> kstate" where
  "kzfree_master_key p s =
     (case mk_objs s p of
        None \<Rightarrow> s
      | Some m \<Rightarrow>
          emit (Kfree_master_key p (zeroed_master_key m)) (s\<lparr>mk_objs := (mk_objs s)(p := None)\<rparr>))"

definition kzfree_buffer :: "bytes option \<Rightarrow> kstate \<Rightarrow> kstate" where
  "kzfree_buffer b s =
     (case b of None \<Rightarrow> s | Some buf \<Rightarrow> emit (Kfree_buffer (memzero buf (length buf))) s)"

text \<open>\<^verbatim>\<open>free_master_key\<close>; \<^verbatim>\<open>crypto_free_skcipher(NULL)\<close> is a no-op.\<close>

definition free_master_key :: "nat option \<Rightarrow> kstate \<Rightarrow> kstate" where
  "free_master_key mk s =
     (case mk of
        None \<Rightarrow> s
      | Some p \<Rightarrow>
          let s = (case mk_objs s p of
                     None \<Rightarrow> s
                   | Some m \<Rightarrow>
                       (case mk_ctfm m of None \<Rightarrow> s | Some t \<Rightarrow> emit Crypto_free_skcipher s))
          in kzfree_master_key p s)"

text \<open>Modelled from the spec: \<^verbatim>\<open>refcount_dec_and_lock\<close> (lib/refcount.c) is not among
  the sources. The count is decremented under the lock; the call returns true, holding
  the lock, when the count reached zero. A count that is already zero underflows: a
  warning, no decrement, false.\<close>

definition refcount_dec_and_lock :: "nat \<Rightarrow> kstate \<Rightarrow> bool \<times> kstate" where
  "refcount_dec_and_lock p s =
     (case mk_objs s p of
        None \<Rightarrow> (False, s)
      | Some m \<Rightarrow>
          if mk_refcount m = 0 then (False, emit Warn_once s)
          else
            let s = emit Spin_lock s;
                m' = m\<lparr>mk_refcount := mk_refcount m - 1\<rparr>;
                s = emit (Refcount_dec p) (s\<lparr>mk_objs := (mk_objs s)(p \<mapsto> m')\<rparr>)
            in if mk_refcount m' = 0 then (True, s) else (False, emit Spin_unlock s))"

text \<open>\<^verbatim>\<open>refcount_inc\<close>; the count is a natural number here (the saturation of
  \<^verbatim>\<open>refcount_t\<close> at \<^verbatim>\<open>UINT_MAX\<close> is not modelled).\<close>

definition refcount_inc :: "nat \<Rightarrow> kstate \<Rightarrow> kstate" where
  "refcount_inc p s =
     (case mk_objs s p of
        None \<Rightarrow> s
      | Some m \<Rightarrow>
          emit (Refcount_inc p)
            (s\<lparr>mk_objs := (mk_objs s)(p \<mapsto> m\<lparr>mk_refcount := Suc (mk_refcount m)\<rparr>)\<rparr>))"

text \<open>\<^verbatim>\<open>hash_add\<close> puts the node at the head of its bucket; \<^verbatim>\<open>hash_del\<close> unlinks it.\<close>

definition hash_add :: "nat \<Rightarrow> nat \<Rightarrow> kstate \<Rightarrow> kstate" where
  "hash_add b p s =
     emit (Hash_add b p)
       (s\<lparr>fscrypt_master_keys := (fscrypt_master_keys s)(b := p # fscrypt_master_keys s b)\<rparr>)"

definition hash_del :: "nat \<Rightarrow> kstate \<Rightarrow> kstate" where
  "hash_del p s =
     emit (Hash_del p)
       (s\<lparr>fscrypt_master_keys := (\<lambda>b. removeAll p (fscrypt_master_keys s b))\<rparr>)"

definition put_master_key :: "nat \<Rightarrow> kstate \<Rightarrow> kstate" where
  "put_master_key mk s =
     (let (locked, s) = refcount_dec_and_lock mk s in
      if \<not> locked then s
      else
        let s = hash_del mk s;
            s = emit Spin_unlock s
        in free_master_key (Some mk) s)"

text \<open>The loop \<^verbatim>\<open>hash_for_each_possible\<close> of \<^verbatim>\<open>find_or_insert_master_key\<close> over the
  chain of one bucket, with its three \<^verbatim>\<open>continue\<close> tests: \<^verbatim>\<open>memcmp\<close> of the descriptors,
  the mode pointers, \<^verbatim>\<open>crypto_memneq\<close> of the raw keys over \<^verbatim>\<open>mode->keysize\<close> bytes. The
  result is the first entry that passes all three. (A chain holds live entries only; an
  address with no object is skipped.)\<close>

fun hash_for_each_possible ::
  "hdr \<Rightarrow> (nat \<Rightarrow> fscrypt_master_key option) \<Rightarrow> fscrypt_info \<Rightarrow> nat \<Rightarrow> bytes \<Rightarrow> nat list \<Rightarrow> nat option" where
  "hash_for_each_possible h objs ci mode raw_key [] = None"
| "hash_for_each_possible h objs ci mode raw_key (p # ps) =
     (case objs p of
        None \<Rightarrow> hash_for_each_possible h objs ci mode raw_key ps
      | Some mk \<Rightarrow>
          if take (FS_KEY_DESCRIPTOR_SIZE h) (ci_master_key_descriptor ci) \<noteq>
             take (FS_KEY_DESCRIPTOR_SIZE h) (mk_descriptor mk)
          then hash_for_each_possible h objs ci mode raw_key ps
          else if Some mode \<noteq> mk_mode mk
          then hash_for_each_possible h objs ci mode raw_key ps
          else if take (keysize (available_modes h mode)) raw_key \<noteq>
                  take (keysize (available_modes h mode)) (mk_raw mk)
          then hash_for_each_possible h objs ci mode raw_key ps
          else Some p)"

text \<open>\<^verbatim>\<open>find_or_insert_master_key\<close>; \<^verbatim>\<open>to_insert\<close> and the result are pointers
  (\<open>None\<close> is \<^verbatim>\<open>NULL\<close>).\<close>

definition find_or_insert_master_key ::
  "hdr \<Rightarrow> nat option \<Rightarrow> bytes \<Rightarrow> nat \<Rightarrow> fscrypt_info \<Rightarrow> kstate \<Rightarrow> nat option \<times> kstate" where
  "find_or_insert_master_key h to_insert raw_key mode ci s =
    (let hash_key = take (sizeof_long h) (ci_master_key_descriptor ci);
         s = emit Spin_lock s
     in case hash_for_each_possible h (mk_objs s) ci mode raw_key
               (fscrypt_master_keys s (hash_min h hash_key)) of
          Some mk \<Rightarrow>
            let s = refcount_inc mk s;
                s = emit Spin_unlock s;
                s = free_master_key to_insert s
            in (Some mk, s)
        | None \<Rightarrow>
            let s = (case to_insert of
                       None \<Rightarrow> s
                     | Some p \<Rightarrow> hash_add (hash_min h hash_key) p s)
            in (to_insert, emit Spin_unlock s))"

text \<open>The object \<^verbatim>\<open>kzalloc(sizeof(*mk))\<close> returns.\<close>

definition kzalloc_mk :: "hdr \<Rightarrow> fscrypt_master_key" where
  "kzalloc_mk h =
     \<lparr>mk_refcount = 0, mk_mode = None, mk_ctfm = None,
      mk_descriptor = replicate (FS_KEY_DESCRIPTOR_SIZE h) 0,
      mk_raw = replicate (FS_MAX_KEY_SIZE h) 0\<rparr>"

text \<open>\<^verbatim>\<open>fscrypt_get_master_key\<close>: a pointer to a table entry or an \<^verbatim>\<open>ERR_PTR\<close>.\<close>

definition fscrypt_get_master_key ::
  "hdr \<Rightarrow> env \<Rightarrow> fscrypt_info \<Rightarrow> nat \<Rightarrow> bytes \<Rightarrow> inode \<Rightarrow> kstate \<Rightarrow> (errno + nat option) \<times> kstate" where
  "fscrypt_get_master_key h e ci mode raw_key inode s =
    (case find_or_insert_master_key h None raw_key mode ci s of
       (Some mk, s) \<Rightarrow> (Inr (Some mk), s)
     | (None, s) \<Rightarrow>
         let s = emit Kzalloc_master_key s in
         case kzalloc_master_key e of
           None \<Rightarrow> (Inl ENOMEM, s)
         | Some p \<Rightarrow>
             let mk = (kzalloc_mk h)\<lparr>mk_refcount := 1, mk_mode := Some mode\<rparr>;
                 s = s\<lparr>mk_objs := (mk_objs s)(p \<mapsto> mk)\<rparr>
             in case allocate_skcipher_for_mode h e mode raw_key inode s of
                  (Inl err, s) \<Rightarrow> (Inl err, free_master_key (Some p) s)
                | (Inr t, s) \<Rightarrow>
                    let mk = mk\<lparr>mk_ctfm := Some t,
                                mk_descriptor :=
                                  memcpy (mk_descriptor mk) (ci_master_key_descriptor ci)
                                    (FS_KEY_DESCRIPTOR_SIZE h),
                                mk_raw :=
                                  memcpy (mk_raw mk) raw_key
                                    (keysize (available_modes h mode))\<rparr>;
                        s = s\<lparr>mk_objs := (mk_objs s)(p \<mapsto> mk)\<rparr>
                    in case find_or_insert_master_key h (Some p) raw_key mode ci s of
                         (r, s) \<Rightarrow> (Inr r, s))"

subsection \<open>ESSIV\<close>

text \<open>\<^verbatim>\<open>derive_essiv_salt\<close>: the global hash transform is allocated on first use and
  published with \<^verbatim>\<open>cmpxchg\<close>; the digest of \<^verbatim>\<open>keysize\<close> bytes of \<^verbatim>\<open>key\<close> is written
  to \<^verbatim>\<open>salt\<close>.\<close>

definition derive_essiv_salt ::
  "env \<Rightarrow> bytes \<Rightarrow> nat \<Rightarrow> bytes \<Rightarrow> kstate \<Rightarrow> (rc \<times> bytes) \<times> kstate" where
  "derive_essiv_salt e ky ksize salt s =
    (let (r, s) =
       (case essiv_hash_tfm s of
          Some t \<Rightarrow> (Inr t, s)
        | None \<Rightarrow>
            let s = emit (Crypto_alloc_shash ''sha256'') s in
            case crypto_alloc_shash e ''sha256'' of
              Neg err \<Rightarrow> (Inl err, emit (Fscrypt_warn W_alloc_sha256) s)
            | Zero \<Rightarrow>
                let t = \<lparr>tfm_alg = ''sha256'', tfm_key = None\<rparr> in
                (case essiv_hash_tfm s of
                   None \<Rightarrow> (Inr t, s\<lparr>essiv_hash_tfm := Some t\<rparr>)
                 | Some prev_tfm \<Rightarrow> (Inr prev_tfm, emit Crypto_free_shash s)))
     in case r of
          Inl err \<Rightarrow> ((Neg err, salt), s)
        | Inr t \<Rightarrow>
            let s = emit Crypto_shash_digest s;
                res = crypto_shash_digest e
            in ((res,
                 (case res of
                    Zero \<Rightarrow> memcpy salt (sha256 e (take ksize ky)) SHA256_DIGEST_SIZE
                  | Neg err \<Rightarrow> salt)), s))"

text \<open>\<^verbatim>\<open>init_essiv_generator\<close>. The local array \<^verbatim>\<open>salt\<close> starts with whatever the stack
  holds; the third component of the result is what it holds when the function returns.
  \<^verbatim>\<open>ci->ci_essiv_tfm\<close> points to the cipher that \<^verbatim>\<open>crypto_cipher_setkey\<close> then keys.\<close>

definition init_essiv_generator ::
  "env \<Rightarrow> fscrypt_info \<Rightarrow> bytes \<Rightarrow> nat \<Rightarrow> kstate \<Rightarrow> (rc \<times> fscrypt_info \<times> bytes) \<times> kstate" where
  "init_essiv_generator e ci raw_key ksize s =
    (let salt = take SHA256_DIGEST_SIZE (stack_salt e);
         s = emit (Crypto_alloc_cipher ''aes'') s
     in case crypto_alloc_cipher e ''aes'' of
          Neg err \<Rightarrow> ((Neg err, ci, salt), s)
        | Zero \<Rightarrow>
            let essiv_tfm = \<lparr>tfm_alg = ''aes'', tfm_key = None\<rparr>;
                ci = ci\<lparr>ci_essiv_tfm := Some essiv_tfm\<rparr>;
                ((err, salt), s) = derive_essiv_salt e raw_key ksize salt s
            in case err of
                 Neg x \<Rightarrow> ((err, ci, memzero salt SHA256_DIGEST_SIZE), s)
               | Zero \<Rightarrow>
                   let s = emit Crypto_cipher_setkey s;
                       k = take SHA256_DIGEST_SIZE salt;
                       err = crypto_cipher_setkey e ''aes'' k;
                       ci = (case err of
                               Zero \<Rightarrow> ci\<lparr>ci_essiv_tfm := Some (essiv_tfm\<lparr>tfm_key := Some k\<rparr>)\<rparr>
                             | Neg x \<Rightarrow> ci)
                   in ((err, ci, memzero salt SHA256_DIGEST_SIZE), s))"

subsection \<open>The per-inode crypto info\<close>

text \<open>\<^verbatim>\<open>mk->mk_ctfm\<close> for the pointer \<^verbatim>\<open>fscrypt_get_master_key\<close> returned.\<close>

definition mk_ctfm_of :: "kstate \<Rightarrow> nat option \<Rightarrow> tfm option" where
  "mk_ctfm_of s mk =
     (case mk of
        None \<Rightarrow> None
      | Some p \<Rightarrow> (case mk_objs s p of None \<Rightarrow> None | Some m \<Rightarrow> mk_ctfm m))"

definition setup_crypto_transform ::
  "hdr \<Rightarrow> env \<Rightarrow> fscrypt_info \<Rightarrow> nat \<Rightarrow> bytes \<Rightarrow> inode \<Rightarrow> kstate \<Rightarrow> (rc \<times> fscrypt_info) \<times> kstate" where
  "setup_crypto_transform h e ci mode raw_key inode s =
    (let (r, s) =
       (if ci_flags ci AND FS_POLICY_FLAG_DIRECT_KEY h \<noteq> 0 then
          (case fscrypt_get_master_key h e ci mode raw_key inode s of
             (Inl err, s) \<Rightarrow> (Inl err, s)
           | (Inr mk, s) \<Rightarrow> (Inr (mk, mk_ctfm_of s mk), s))
        else
          (case allocate_skcipher_for_mode h e mode raw_key inode s of
             (Inl err, s) \<Rightarrow> (Inl err, s)
           | (Inr ctfm, s) \<Rightarrow> (Inr (None, Some ctfm), s)))
     in case r of
          Inl err \<Rightarrow> ((Neg err, ci), s)
        | Inr (mk, ctfm) \<Rightarrow>
            let ci = ci\<lparr>ci_master_key := mk, ci_ctfm := ctfm\<rparr>;
                m = available_modes h mode
            in if needs_essiv m then
                 let s = (if ivsize m \<noteq> AES_BLOCK_SIZE then emit Warn_on s else s);
                     s = (if ci_flags ci AND FS_POLICY_FLAG_DIRECT_KEY h \<noteq> 0
                          then emit Warn_on s else s);
                     ((err, ci, salt), s) = init_essiv_generator e ci raw_key (keysize m) s
                 in case err of
                      Neg x \<Rightarrow> ((err, ci), emit (Fscrypt_warn W_essiv_init) s)
                    | Zero \<Rightarrow> ((Zero, ci), s)
               else ((Zero, ci), s))"

text \<open>\<^verbatim>\<open>put_crypt_info\<close>; the event \<open>Kmem_cache_free\<close> records the object as it is given
  back, after the \<^verbatim>\<open>memset\<close> of \<^verbatim>\<open>ci_raw_key\<close>.\<close>

definition put_crypt_info :: "fscrypt_info option \<Rightarrow> kstate \<Rightarrow> kstate" where
  "put_crypt_info ci s =
     (case ci of
        None \<Rightarrow> s
      | Some c \<Rightarrow>
          let s = emit Sdp_call s;
              s = (case ci_master_key c of
                     Some mk \<Rightarrow> put_master_key mk s
                   | None \<Rightarrow>
                       let s = (case ci_ctfm c of
                                  None \<Rightarrow> s | Some t \<Rightarrow> emit Crypto_free_skcipher s)
                       in (case ci_essiv_tfm c of
                             None \<Rightarrow> s | Some t \<Rightarrow> emit Crypto_free_cipher s))
          in emit (Kmem_cache_free
                     (c\<lparr>ci_raw_key := memzero (ci_raw_key c) (length (ci_raw_key c))\<rparr>)) s)"

definition fscrypt_data_encryption_mode :: "hdr \<Rightarrow> env \<Rightarrow> u8" where
  "fscrypt_data_encryption_mode h e =
     (if fscrypt_should_be_processed_by_ice e then FS_ENCRYPTION_MODE_PRIVATE h
      else FS_ENCRYPTION_MODE_AES_256_XTS h)"

text \<open>\<^verbatim>\<open>derive_fek\<close>, the key of a classified file; the three providers are outside the
  file.\<close>

definition derive_fek :: "env \<Rightarrow> bytes \<Rightarrow> nat \<Rightarrow> kstate \<Rightarrow> (rc \<times> bytes) \<times> kstate" where
  "derive_fek e fek fek_len s =
     (if fscrypt_sdp_is_uninitialized e then
        (case fscrypt_sdp_derive_uninitialized_dek e fek_len of
           (res, out) \<Rightarrow> ((res, memcpy fek out fek_len), emit Sdp_call s))
      else if fscrypt_sdp_is_sensitive e then
        (case fscrypt_sdp_derive_dek e fek_len of
           (res, out) \<Rightarrow> ((res, memcpy fek out fek_len), emit Sdp_call s))
      else if fscrypt_sdp_is_native e then
        (case fscrypt_sdp_derive_fek e fek_len of
           (res, out) \<Rightarrow> ((res, memcpy fek out fek_len), emit Sdp_call s))
      else ((Zero, fek), s))"

text \<open>The object \<^verbatim>\<open>kmem_cache_zalloc(fscrypt_info_cachep)\<close> returns.\<close>

definition kmem_cache_zalloc_info :: "hdr \<Rightarrow> fscrypt_info" where
  "kmem_cache_zalloc_info h =
     \<lparr>ci_flags = 0, ci_data_mode = 0, ci_filename_mode = 0,
      ci_master_key_descriptor = replicate (FS_KEY_DESCRIPTOR_SIZE h) 0,
      ci_nonce = replicate (FS_KEY_DERIVATION_NONCE_SIZE h) 0,
      ci_mode = None, ci_master_key = None, ci_ctfm = None, ci_essiv_tfm = None,
      ci_raw_key = replicate (FS_MAX_KEY_SIZE h) 0, ci_sdp_info = None\<rparr>"

text \<open>The context faked up for an unencrypted directory when the dummy context is
  enabled.\<close>

definition dummy_context :: "hdr \<Rightarrow> env \<Rightarrow> fscrypt_context" where
  "dummy_context h e =
     \<lparr>format = FS_ENCRYPTION_CONTEXT_FORMAT_V1 h,
      contents_encryption_mode = fscrypt_data_encryption_mode h e,
      filenames_encryption_mode = FS_ENCRYPTION_MODE_AES_256_CTS h,
      flags = 0,
      master_key_descriptor = replicate (FS_KEY_DESCRIPTOR_SIZE h) 0x42,
      nonce = replicate (FS_KEY_DERIVATION_NONCE_SIZE h) 0,
      knox_flags = 0\<rparr>"

text \<open>The label \<^verbatim>\<open>out\<close> of \<^verbatim>\<open>fscrypt_get_encryption_info\<close>.\<close>

definition get_encryption_info_out ::
  "rc \<Rightarrow> fscrypt_info option \<Rightarrow> bytes option \<Rightarrow> inode \<Rightarrow> kstate \<Rightarrow> rc \<times> inode \<times> kstate" where
  "get_encryption_info_out res crypt_info raw_key inode s =
     (let res = (if res = Neg ENOKEY then Zero else res);
          s = put_crypt_info crypt_info s;
          s = kzfree_buffer raw_key s
      in (res, inode, s))"

text \<open>From the label \<^verbatim>\<open>sdp_dek\<close> to \<^verbatim>\<open>out\<close>. Between the test at the head of
  \<^verbatim>\<open>fscrypt_get_encryption_info\<close> and \<^verbatim>\<open>cmpxchg_release\<close> another thread may have
  installed its own info: \<open>racing_i_crypt_info\<close> is what the slot holds then.\<close>

definition get_encryption_info_sdp_dek ::
  "hdr \<Rightarrow> env \<Rightarrow> inode \<Rightarrow> fscrypt_info \<Rightarrow> nat \<Rightarrow> bytes \<Rightarrow> kstate \<Rightarrow> rc \<times> inode \<times> kstate" where
  "get_encryption_info_sdp_dek h e inode crypt_info mode raw_key s =
    (let m = available_modes h mode;
         ((res, crypt_info), s) =
           (if \<not> inline_encryption m
            then setup_crypto_transform h e crypt_info mode raw_key inode s
            else ((Zero,
                   crypt_info\<lparr>ci_raw_key :=
                     memcpy (ci_raw_key crypt_info) raw_key (keysize m)\<rparr>), s))
     in case res of
          Neg err \<Rightarrow> get_encryption_info_out res (Some crypt_info) (Some raw_key) inode s
        | Zero \<Rightarrow>
            let s = emit Cmpxchg_i_crypt_info s in
            (case racing_i_crypt_info e of
               None \<Rightarrow>
                 get_encryption_info_out res None (Some raw_key)
                   (inode\<lparr>i_crypt_info := Some crypt_info\<rparr>) (emit Sdp_call s)
             | Some other \<Rightarrow>
                 get_encryption_info_out res (Some crypt_info) (Some raw_key)
                   (inode\<lparr>i_crypt_info := Some other\<rparr>) s))"

text \<open>The block under \<^verbatim>\<open>CONFIG_FSCRYPT_SDP\<close> before \<^verbatim>\<open>find_and_derive_key\<close>: it ends
  at \<^verbatim>\<open>out\<close>, at \<^verbatim>\<open>sdp_dek\<close>, or falls through.\<close>

datatype sdp_exit =
    Sdp_out rc fscrypt_info bytes
  | Sdp_dek fscrypt_info bytes
  | Sdp_fallthrough fscrypt_info

definition get_encryption_info_sdp ::
  "env \<Rightarrow> fscrypt_context \<Rightarrow> fscrypt_info \<Rightarrow> bytes \<Rightarrow> nat \<Rightarrow> kstate \<Rightarrow> sdp_exit \<times> kstate" where
  "get_encryption_info_sdp e ctx crypt_info raw_key ksize s =
    (if sdp_only_flag e (knox_flags ctx) then
       let s = emit Sdp_call s in
       case fscrypt_sdp_alloc_sdp_info e of
         None \<Rightarrow> (Sdp_out (Neg ENOMEM) crypt_info raw_key, s)
       | Some i \<Rightarrow>
           let crypt_info = crypt_info\<lparr>ci_sdp_info := Some i\<rparr>;
               s = emit Sdp_call s
           in case fscrypt_sdp_update_sdp_info e of
                Neg err \<Rightarrow> (Sdp_out (Neg err) crypt_info raw_key, s)
              | Zero \<Rightarrow>
                  if fscrypt_sdp_is_classified e then
                    let ((res, raw_key), s) = derive_fek e raw_key ksize s in
                    case res of
                      Neg err \<Rightarrow>
                        (Sdp_out res crypt_info raw_key,
                         if fscrypt_sdp_is_sensitive e then emit Sdp_call s else s)
                    | Zero \<Rightarrow> (Sdp_dek crypt_info raw_key, emit Sdp_call s)
                  else (Sdp_fallthrough crypt_info, s)
     else (Sdp_fallthrough crypt_info, s))"

text \<open>\<^verbatim>\<open>fscrypt_get_encryption_info\<close>: the status and the inode, whose slot
  \<^verbatim>\<open>i_crypt_info\<close> the call may fill. \<^verbatim>\<open>fscrypt_has_encryption_key(inode)\<close> is
  \<^verbatim>\<open>inode->i_crypt_info != NULL\<close>.\<close>

definition fscrypt_get_encryption_info ::
  "hdr \<Rightarrow> env \<Rightarrow> inode \<Rightarrow> kstate \<Rightarrow> rc \<times> inode \<times> kstate" where
  "fscrypt_get_encryption_info h e inode s =
    (if i_crypt_info inode \<noteq> None then (Zero, inode, s)
     else
       let s = emit Fscrypt_initialize s in
       case fscrypt_initialize e (s_cop_flags inode) of
         Neg err \<Rightarrow> (Neg err, inode, s)
       | Zero \<Rightarrow>
           let s = emit Get_context s;
               c = (case get_context e of
                      Inl err \<Rightarrow>
                        if \<not> fscrypt_dummy_context_enabled e \<or> IS_ENCRYPTED e
                        then Inl (Neg err)
                        else Inr (dummy_context h e)
                    | Inr (n, ctx) \<Rightarrow>
                        if n \<noteq> sizeof_fscrypt_context h then Inl (Neg EINVAL) else Inr ctx)
           in case c of
                Inl res \<Rightarrow> (res, inode, s)
              | Inr ctx \<Rightarrow>
                  if format ctx \<noteq> FS_ENCRYPTION_CONTEXT_FORMAT_V1 h
                  then (Neg EINVAL, inode, s)
                  else if flags ctx AND NOT (FS_POLICY_FLAGS_VALID h) \<noteq> 0
                  then (Neg EINVAL, inode, s)
                  else
                    let s = emit Kmem_cache_zalloc s in
                    if \<not> kmem_cache_zalloc_ok e then (Neg ENOMEM, inode, s)
                    else
                      let z = kmem_cache_zalloc_info h;
                          crypt_info = z
                            \<lparr>ci_flags := flags ctx,
                             ci_data_mode := contents_encryption_mode ctx,
                             ci_filename_mode := filenames_encryption_mode ctx,
                             ci_master_key_descriptor :=
                               memcpy (ci_master_key_descriptor z) (master_key_descriptor ctx)
                                 (FS_KEY_DESCRIPTOR_SIZE h),
                             ci_nonce :=
                               memcpy (ci_nonce z) (nonce ctx) (FS_KEY_DERIVATION_NONCE_SIZE h),
                             ci_sdp_info := None\<rparr>
                      in case select_encryption_mode h e crypt_info inode s of
                           (Inl err, s) \<Rightarrow>
                             get_encryption_info_out (Neg err) (Some crypt_info) None inode s
                         | (Inr mode, s) \<Rightarrow>
                             let m = available_modes h mode;
                                 s = (if ivsize m > FSCRYPT_MAX_IV_SIZE h
                                      then emit Warn_on s else s);
                                 crypt_info = crypt_info\<lparr>ci_mode := Some mode\<rparr>;
                                 s = emit (Kmalloc (keysize m)) s
                             in case kmalloc e (keysize m) of
                                  None \<Rightarrow>
                                    get_encryption_info_out (Neg ENOMEM) (Some crypt_info)
                                      None inode s
                                | Some raw_key \<Rightarrow>
                                    (case get_encryption_info_sdp e ctx crypt_info raw_key
                                            (keysize m) s of
                                       (Sdp_out res ci rk, s) \<Rightarrow>
                                         get_encryption_info_out res (Some ci) (Some rk) inode s
                                     | (Sdp_dek ci rk, s) \<Rightarrow>
                                         get_encryption_info_sdp_dek h e inode ci mode rk s
                                     | (Sdp_fallthrough ci, s) \<Rightarrow>
                                         (case find_and_derive_key h e inode ctx raw_key m s of
                                            ((Neg err, rk), s) \<Rightarrow>
                                              get_encryption_info_out (Neg err) (Some ci)
                                                (Some rk) inode s
                                          | ((Zero, rk), s) \<Rightarrow>
                                              get_encryption_info_sdp_dek h e inode ci mode
                                                rk s)))"

text \<open>\<^verbatim>\<open>fscrypt_get_encryption_key\<close>: the status and the caller's \<^verbatim>\<open>struct fscrypt_key\<close>.
  Every \<^verbatim>\<open>goto out\<close> passes \<^verbatim>\<open>kzfree(raw_key)\<close>; the three early \<^verbatim>\<open>return\<close>s and the
  \<^verbatim>\<open>return -EPERM\<close> come before the buffer exists.\<close>

definition fscrypt_get_encryption_key ::
  "hdr \<Rightarrow> env \<Rightarrow> inode \<Rightarrow> fscrypt_key \<Rightarrow> kstate \<Rightarrow> rc \<times> fscrypt_key \<times> kstate" where
  "fscrypt_get_encryption_key h e inode ky s =
    (case i_crypt_info inode of
       None \<Rightarrow> (Neg EINVAL, ky, s)
     | Some crypt_info \<Rightarrow>
         let s = emit Get_context s in
         case get_context e of
           Inl err \<Rightarrow> (Neg err, ky, s)
         | Inr (n, ctx) \<Rightarrow>
             if n \<noteq> sizeof_fscrypt_context h then (Neg EINVAL, ky, s)
             else if format ctx \<noteq> FS_ENCRYPTION_CONTEXT_FORMAT_V1 h then (Neg EINVAL, ky, s)
             else if flags ctx AND NOT (FS_POLICY_FLAGS_VALID h) \<noteq> 0 then (Neg EINVAL, ky, s)
             else
               case select_encryption_mode h e crypt_info inode s of
                 (Inl err, s) \<Rightarrow> (Neg err, ky, kzfree_buffer None s)
               | (Inr mode, s) \<Rightarrow>
                   let m = available_modes h mode in
                   if FS_MAX_KEY_SIZE h < keysize m then (Neg EPERM, ky, s)
                   else
                     let s = emit (Kmalloc (keysize m)) s in
                     case kmalloc e (keysize m) of
                       None \<Rightarrow> (Neg ENOMEM, ky, kzfree_buffer None s)
                     | Some raw_key \<Rightarrow>
                         (case find_and_derive_key h e inode ctx raw_key m s of
                            ((Neg err, rk), s) \<Rightarrow> (Neg err, ky, kzfree_buffer (Some rk) s)
                          | ((Zero, rk), s) \<Rightarrow>
                              (Zero,
                               ky\<lparr>fk_raw := memcpy (fk_raw ky) rk (keysize m),
                                  fk_size := keysize m\<rparr>,
                               kzfree_buffer (Some rk) s)))"

subsection \<open>A configuration for examples\<close>

text \<open>The header values of Linux 4.19 with the vendor's inline-encryption mode, a
  64-bit \<^verbatim>\<open>unsigned long\<close>, and an environment in which every service succeeds and the
  keyring holds one 64-byte key, under the descriptor of eight bytes \<^verbatim>\<open>0x42\<close>. The
  cipher and the hash are stand-ins that keep the lengths of the real ones.\<close>

definition example_hdr :: hdr where
  "example_hdr =
     \<lparr>FS_KEY_DESCRIPTOR_SIZE = 8, FS_KEY_DERIVATION_NONCE_SIZE = 16, FS_MAX_KEY_SIZE = 64,
      sizeof_fscrypt_key = 72, sizeof_fscrypt_context = 32,
      FS_KEY_DESC_PREFIX = ''fscrypt:'',
      FS_ENCRYPTION_CONTEXT_FORMAT_V1 = 1, FS_POLICY_FLAGS_VALID = 7,
      FS_POLICY_FLAG_DIRECT_KEY = 4, offsetofend_iv_nonce = 24, FSCRYPT_MAX_IV_SIZE = 32,
      FS_ENCRYPTION_MODE_AES_256_XTS = 1, FS_ENCRYPTION_MODE_AES_256_CTS = 4,
      FS_ENCRYPTION_MODE_AES_128_CBC = 5, FS_ENCRYPTION_MODE_AES_128_CTS = 6,
      FS_ENCRYPTION_MODE_ADIANTUM = 9, FS_ENCRYPTION_MODE_PRIVATE = 127,
      fscrypt_valid_enc_modes =
        (\<lambda>c f. (c = 1 \<and> f = 4) \<or> (c = 5 \<and> f = 6) \<or> (c = 9 \<and> f = 9) \<or> (c = 127 \<and> f = 4)),
      sizeof_long = 8,
      hash_min = (\<lambda>bs. length bs)\<rparr>"

definition example_key :: key where
  "example_key =
     \<lparr>description = ''fscrypt:4242424242424242'',
      payload = Some \<lparr>datalen = 72,
                      data = \<lparr>fk_mode = 0, fk_raw = replicate 64 7, fk_size = 64\<rparr>\<rparr>\<rparr>"

definition example_env :: env where
  "example_env =
     \<lparr>kasprintf_ok = (\<lambda>d. True),
      request_key =
        (\<lambda>d. if d = ''fscrypt:4242424242424242'' then Inr example_key else Inl ENOKEY),
      crypto_alloc_skcipher = (\<lambda>a. Zero),
      skcipher_request_alloc_ok = True,
      crypto_skcipher_setkey = (\<lambda>a k. Zero),
      ecb_aes_encrypt = (\<lambda>k d. rev d),
      crypto_wait_req = Zero,
      crypto_alloc_cipher = (\<lambda>a. Zero),
      crypto_cipher_setkey = (\<lambda>a k. Zero),
      crypto_alloc_shash = (\<lambda>a. Zero),
      sha256 = (\<lambda>d. replicate 32 (of_nat (length d))),
      crypto_shash_digest = Zero,
      stack_salt = replicate 32 9,
      kzalloc_master_key = Some 1,
      kmem_cache_zalloc_ok = True,
      kmalloc = (\<lambda>n. Some (replicate n 3)),
      fscrypt_initialize = (\<lambda>f. Zero),
      get_context =
        Inr (32, \<lparr>format = 1, contents_encryption_mode = 1, filenames_encryption_mode = 4,
                  flags = 0, master_key_descriptor = replicate 8 0x42,
                  nonce = replicate 16 5, knox_flags = 0\<rparr>),
      fscrypt_dummy_context_enabled = False,
      IS_ENCRYPTED = True,
      fscrypt_is_ice_capable = True,
      fscrypt_should_be_processed_by_ice = False,
      racing_i_crypt_info = None,
      sdp_only_flag = (\<lambda>k. False),
      fscrypt_sdp_alloc_sdp_info = Some 0,
      fscrypt_sdp_update_sdp_info = Zero,
      fscrypt_sdp_is_classified = False,
      fscrypt_sdp_is_uninitialized = False,
      fscrypt_sdp_is_sensitive = False,
      fscrypt_sdp_is_native = False,
      fscrypt_sdp_derive_uninitialized_dek = (\<lambda>n. (Zero, replicate n 0)),
      fscrypt_sdp_derive_dek = (\<lambda>n. (Zero, replicate n 0)),
      fscrypt_sdp_derive_fek = (\<lambda>n. (Zero, replicate n 0))\<rparr>"

definition example_ctx :: fscrypt_context where
  "example_ctx =
     \<lparr>format = 1, contents_encryption_mode = 1, filenames_encryption_mode = 4,
      flags = 0, master_key_descriptor = replicate 8 0x42,
      nonce = replicate 16 5, knox_flags = 0\<rparr>"

definition example_inode :: inode where
  "example_inode =
     \<lparr>i_mode = S_IFREG, i_ino = 12, i_crypt_info = None,
      s_cop_key_prefix = None, s_cop_flags = 0\<rparr>"

definition example_state :: kstate where
  "example_state =
     \<lparr>fscrypt_master_keys = (\<lambda>b. []), mk_objs = (\<lambda>p. None), essiv_hash_tfm = None,
      logged_impl_name = (\<lambda>i. False), trace = []\<rparr>"

definition example_info :: fscrypt_info where
  "example_info =
     \<lparr>ci_flags = 0, ci_data_mode = 1, ci_filename_mode = 4,
      ci_master_key_descriptor = replicate 8 0x42, ci_nonce = replicate 16 5,
      ci_mode = Some 1, ci_master_key = None, ci_ctfm = None, ci_essiv_tfm = None,
      ci_raw_key = replicate 64 0, ci_sdp_info = None\<rparr>"

text \<open>The same environment with an empty keyring.\<close>

definition example_env_nokey :: env where
  "example_env_nokey = example_env\<lparr>request_key := (\<lambda>d. Inl ENOKEY)\<rparr>"

subsection \<open>Notions of the specification\<close>

text \<open>The specification's NoKey for one description of the keyring, in its words: the
  key is absent, or (revoked or) its payload is malformed: wrong payload size, declared
  key length outside \<open>[1, FS_MAX_KEY_SIZE]\<close>, or declared key length below the mode's key
  size.\<close>

definition key_unavailable :: "hdr \<Rightarrow> env \<Rightarrow> string \<Rightarrow> nat \<Rightarrow> bool" where
  "key_unavailable h e descr min_keysize =
     (case request_key e descr of
        Inl err \<Rightarrow> err = ENOKEY
      | Inr k \<Rightarrow>
          (case payload k of
             None \<Rightarrow> True
           | Some u \<Rightarrow>
               datalen u \<noteq> sizeof_fscrypt_key h \<or> fk_size (data u) < 1 \<or>
               fk_size (data u) > FS_MAX_KEY_SIZE h \<or> fk_size (data u) < min_keysize))"

text \<open>The description \<^verbatim>\<open>kasprintf\<close> builds for a prefix and a descriptor.\<close>

definition key_description :: "hdr \<Rightarrow> string \<Rightarrow> bytes \<Rightarrow> string" where
  "key_description h prefix descriptor =
     prefix @ phN (take (FS_KEY_DESCRIPTOR_SIZE h) descriptor)"

text \<open>The mode \<^verbatim>\<open>select_encryption_mode\<close> picks for an encryptable inode.\<close>

definition selected_mode :: "inode \<Rightarrow> fscrypt_context \<Rightarrow> nat" where
  "selected_mode inode ctx =
     (if i_mode inode = S_IFREG then unat (contents_encryption_mode ctx)
      else unat (filenames_encryption_mode ctx))"

text \<open>An environment whose keyring holds, for every description, a key whose payload
  has the wrong size.\<close>

definition example_env_badkey :: env where
  "example_env_badkey =
     example_env\<lparr>request_key :=
       (\<lambda>d. Inr (example_key\<lparr>payload :=
                    Some \<lparr>datalen = 70,
                          data = \<lparr>fk_mode = 0, fk_raw = replicate 64 7, fk_size = 64\<rparr>\<rparr>\<rparr>))\<rparr>"

text \<open>The master-key cache in the specification's words: an entry is in the table; an
  entry matches a caller's triple when its descriptor bytes, its mode and its raw key
  bytes (over \<^verbatim>\<open>mode->keysize\<close> bytes) equal the caller's.\<close>

definition in_table :: "kstate \<Rightarrow> nat \<Rightarrow> bool" where
  "in_table s p = (\<exists>b. p \<in> set (fscrypt_master_keys s b))"

definition mk_matches :: "hdr \<Rightarrow> bytes \<Rightarrow> nat \<Rightarrow> bytes \<Rightarrow> fscrypt_master_key \<Rightarrow> bool" where
  "mk_matches h descriptor mode raw_key mk =
     (take (FS_KEY_DESCRIPTOR_SIZE h) descriptor =
        take (FS_KEY_DESCRIPTOR_SIZE h) (mk_descriptor mk) \<and>
      mk_mode mk = Some mode \<and>
      take (keysize (available_modes h mode)) raw_key =
        take (keysize (available_modes h mode)) (mk_raw mk))"

text \<open>The invariant of the table: every address in a chain is a live object, and it is
  in the bucket that \<^verbatim>\<open>find_or_insert_master_key\<close> computes from its descriptor.\<close>

definition table_ok :: "hdr \<Rightarrow> kstate \<Rightarrow> bool" where
  "table_ok h s =
     (\<forall>b p. p \<in> set (fscrypt_master_keys s b) \<longrightarrow>
        (\<exists>m. mk_objs s p = Some m \<and>
             hash_min h (take (sizeof_long h) (mk_descriptor m)) = b))"

text \<open>The entry at which the loop of \<^verbatim>\<open>find_or_insert_master_key\<close> stops for a
  caller's triple, in a given state.\<close>

definition first_match :: "hdr \<Rightarrow> kstate \<Rightarrow> fscrypt_info \<Rightarrow> nat \<Rightarrow> bytes \<Rightarrow> nat option" where
  "first_match h s ci mode raw_key =
     hash_for_each_possible h (mk_objs s) ci mode raw_key
       (fscrypt_master_keys s
          (hash_min h (take (sizeof_long h) (ci_master_key_descriptor ci))))"

text \<open>A state whose table holds one entry, at address 7, with two references, made
  for the example key in mode AES-256-XTS.\<close>

definition example_master_key :: fscrypt_master_key where
  "example_master_key =
     \<lparr>mk_refcount = 2, mk_mode = Some 1,
      mk_ctfm = Some \<lparr>tfm_alg = ''xts(aes)'', tfm_key = Some (replicate 64 7)\<rparr>,
      mk_descriptor = replicate 8 0x42, mk_raw = replicate 64 7\<rparr>"

definition example_table_state :: kstate where
  "example_table_state =
     \<lparr>fscrypt_master_keys = (\<lambda>b. if b = 8 then [7] else []),
      mk_objs = (\<lambda>p. if p = 7 then Some example_master_key else None),
      essiv_hash_tfm = None, logged_impl_name = (\<lambda>i. False), trace = []\<rparr>"

section \<open>Properties\<close>

subsection \<open>Mode selection\<close>

text \<open>
  Claim C5, as the code has it. \<^verbatim>\<open>select_encryption_mode\<close> rejects an unrecognised pair
  of modes with \<^verbatim>\<open>-EINVAL\<close>. For a recognised pair it returns the contents mode for a
  regular file, unless that mode is an inline-encryption mode and the volume has no
  inline-encryption support (\<^verbatim>\<open>-EINVAL\<close>); it returns the filenames mode for a directory
  or a symbolic link; for every other kind of inode it logs one warning
  (\<^verbatim>\<open>WARN_ONCE\<close>) and returns \<^verbatim>\<open>-EINVAL\<close> to its caller, an error like the others.
\<close>

theorem select_encryption_mode_cases:
  "(\<not> fscrypt_valid_enc_modes h (ci_data_mode ci) (ci_filename_mode ci) \<longrightarrow>
      select_encryption_mode h e ci inode s =
        (Inl EINVAL, emit (Fscrypt_warn W_unsupported_modes) s)) \<and>
   (fscrypt_valid_enc_modes h (ci_data_mode ci) (ci_filename_mode ci) \<longrightarrow>
      (i_mode inode = S_IFREG \<longrightarrow>
         select_encryption_mode h e ci inode s =
           (if inline_encryption (available_modes h (unat (ci_data_mode ci))) \<and>
               \<not> fscrypt_is_ice_capable e
            then (Inl EINVAL, emit (Fscrypt_warn W_ice_unavailable) s)
            else (Inr (unat (ci_data_mode ci)), s))) \<and>
      (i_mode inode = S_IFDIR \<or> i_mode inode = S_IFLNK \<longrightarrow>
         select_encryption_mode h e ci inode s = (Inr (unat (ci_filename_mode ci)), s)) \<and>
      (i_mode inode \<notin> {S_IFREG, S_IFDIR, S_IFLNK} \<longrightarrow>
         select_encryption_mode h e ci inode s = (Inl EINVAL, emit Warn_once s)))"
  by (auto simp: select_encryption_mode_def Let_def)

theorem select_encryption_mode_cases_witness:
  "select_encryption_mode example_hdr example_env example_info example_inode example_state =
     (Inr 1, example_state) \<and>
   select_encryption_mode example_hdr example_env example_info
     (example_inode\<lparr>i_mode := S_IFDIR\<rparr>) example_state = (Inr 4, example_state) \<and>
   select_encryption_mode example_hdr example_env example_info
     (example_inode\<lparr>i_mode := S_IFSOCK\<rparr>) example_state =
     (Inl EINVAL, emit Warn_once example_state) \<and>
   select_encryption_mode example_hdr example_env (example_info\<lparr>ci_filename_mode := 5\<rparr>)
     example_inode example_state =
     (Inl EINVAL, emit (Fscrypt_warn W_unsupported_modes) example_state)"
proof -
  have v: "fscrypt_valid_enc_modes example_hdr (ci_data_mode example_info)
             (ci_filename_mode example_info)"
    by (simp add: example_hdr_def example_info_def)
  have nv: "\<not> fscrypt_valid_enc_modes example_hdr
             (ci_data_mode (example_info\<lparr>ci_filename_mode := 5\<rparr>))
             (ci_filename_mode (example_info\<lparr>ci_filename_mode := 5\<rparr>))"
    by (simp add: example_hdr_def example_info_def)
  have ni: "\<not> inline_encryption (available_modes example_hdr (unat (ci_data_mode example_info)))"
    by (simp add: example_hdr_def example_info_def available_modes_def)
  have d: "unat (ci_data_mode example_info) = 1" "unat (ci_filename_mode example_info) = 4"
    by (simp_all add: example_info_def)
  show ?thesis
    using select_encryption_mode_cases [where h = example_hdr and ci = example_info
            and inode = example_inode and e = example_env and s = example_state]
          select_encryption_mode_cases [where h = example_hdr and ci = example_info
            and inode = "example_inode\<lparr>i_mode := S_IFDIR\<rparr>" and e = example_env
            and s = example_state]
          select_encryption_mode_cases [where h = example_hdr and ci = example_info
            and inode = "example_inode\<lparr>i_mode := S_IFSOCK\<rparr>" and e = example_env
            and s = example_state]
          select_encryption_mode_cases [where h = example_hdr
            and ci = "example_info\<lparr>ci_filename_mode := 5\<rparr>"
            and inode = example_inode and e = example_env and s = example_state]
          v nv ni d
    by (simp add: example_inode_def)
qed

text \<open>
  Claim C5 as the specification words it has a character device, with a recognised pair
  of modes, end in a fatal assertion. The code logs one warning and returns \<^verbatim>\<open>-EINVAL\<close>,
  which \<^verbatim>\<open>fscrypt_get_encryption_info\<close> hands on as its own status.
\<close>

theorem select_encryption_mode_other_kind_counterexample:
  "i_mode (example_inode\<lparr>i_mode := S_IFCHR\<rparr>) \<noteq> S_IFREG \<and>
   i_mode (example_inode\<lparr>i_mode := S_IFCHR\<rparr>) \<noteq> S_IFDIR \<and>
   i_mode (example_inode\<lparr>i_mode := S_IFCHR\<rparr>) \<noteq> S_IFLNK \<and>
   fst (select_encryption_mode example_hdr example_env example_info
          (example_inode\<lparr>i_mode := S_IFCHR\<rparr>) example_state) = Inl EINVAL \<and>
   trace (snd (select_encryption_mode example_hdr example_env example_info
          (example_inode\<lparr>i_mode := S_IFCHR\<rparr>) example_state)) = [Warn_once] \<and>
   fst (fscrypt_get_encryption_info example_hdr example_env
          (example_inode\<lparr>i_mode := S_IFCHR\<rparr>) example_state) = Neg EINVAL"
  by code_simp

subsection \<open>Key lookup and derivation\<close>

text \<open>A key that \<^verbatim>\<open>find_and_lock_process_key\<close> returns has passed the three checks of
  its payload.\<close>

lemma find_and_lock_process_key_valid:
  assumes "find_and_lock_process_key h e prefix d n s = (Inr (ky, pl), s1)"
  shows "n \<le> fk_size pl \<and> 1 \<le> fk_size pl \<and> fk_size pl \<le> FS_MAX_KEY_SIZE h \<and>
         request_key e (prefix @ phN (take (FS_KEY_DESCRIPTOR_SIZE h) d)) = Inr ky \<and>
         (\<exists>u. payload ky = Some u \<and> data u = pl \<and> datalen u = sizeof_fscrypt_key h)"
  using assms
  by (auto simp: find_and_lock_process_key_def invalid_def Let_def
           split: if_splits sum.splits option.splits)

lemma find_master_key_valid:
  assumes "find_master_key h e inode ctx mode s = (Inr (ky, pl), s1)"
  shows "keysize mode \<le> fk_size pl \<and> fk_size pl \<le> FS_MAX_KEY_SIZE h"
proof -
  obtain k0 s0 where 0: "find_and_lock_process_key h e (FS_KEY_DESC_PREFIX h)
      (master_key_descriptor ctx) (keysize mode) s = (k0, s0)"
    by (cases "find_and_lock_process_key h e (FS_KEY_DESC_PREFIX h)
      (master_key_descriptor ctx) (keysize mode) s")
  show ?thesis
  proof (cases "k0 = Inl ENOKEY \<and> s_cop_key_prefix inode \<noteq> None")
    case True
    with assms 0 have "find_and_lock_process_key h e (the (s_cop_key_prefix inode))
        (master_key_descriptor ctx) (keysize mode) s0 = (Inr (ky, pl), s1)"
      by (simp add: find_master_key_def)
    from find_and_lock_process_key_valid [OF this] show ?thesis by simp
  next
    case False
    with assms 0 have "find_and_lock_process_key h e (FS_KEY_DESC_PREFIX h)
        (master_key_descriptor ctx) (keysize mode) s = (Inr (ky, pl), s1)"
      by (auto simp: find_master_key_def)
    from find_and_lock_process_key_valid [OF this] show ?thesis by simp
  qed
qed

text \<open>
  Claim C4, as the code has it. With \<^verbatim>\<open>FS_POLICY_FLAG_DIRECT_KEY\<close> set,
  \<^verbatim>\<open>find_and_derive_key\<close> first looks the master key up and returns the lookup's error
  (\<^verbatim>\<open>-ENOKEY\<close> for an absent key) whatever the mode is. Once the key is found, no
  derivation runs: if the IV size of the mode is below
  \<^verbatim>\<open>offsetofend(union fscrypt_iv, nonce)\<close>, or the contents and filenames mode ids of
  the context differ, the result is \<^verbatim>\<open>-EINVAL\<close> and the buffer is left as it was;
  otherwise the first \<^verbatim>\<open>mode->keysize\<close> bytes of the master key are copied into it.
\<close>

theorem find_and_derive_key_direct_key:
  assumes "flags ctx AND FS_POLICY_FLAG_DIRECT_KEY h \<noteq> 0"
    and "find_master_key h e inode ctx mode s = (r, s1)"
  shows "find_and_derive_key h e inode ctx derived_key mode s =
    (case r of
       Inl err \<Rightarrow> ((Neg err, derived_key), s1)
     | Inr (ky, pl) \<Rightarrow>
         if ivsize mode < offsetofend_iv_nonce h
         then ((Neg EINVAL, derived_key),
               emit Key_put (emit Up_read (emit (Fscrypt_warn W_direct_key_ivsize) s1)))
         else if contents_encryption_mode ctx \<noteq> filenames_encryption_mode ctx
         then ((Neg EINVAL, derived_key),
               emit Key_put (emit Up_read (emit (Fscrypt_warn W_direct_key_modes) s1)))
         else ((Zero, memcpy derived_key (fk_raw pl) (keysize mode)),
               emit Key_put (emit Up_read s1)))"
  using assms by (simp add: find_and_derive_key_def split: sum.splits)

text \<open>What a lookup returns does not depend on the kernel state it starts in.\<close>

lemma fst_find_and_lock_process_key_state:
  "fst (find_and_lock_process_key h e prefix d n s) =
   fst (find_and_lock_process_key h e prefix d n s0)"
  by (simp add: find_and_lock_process_key_def invalid_def Let_def
           split: sum.splits option.splits)

lemma fst_find_master_key_state:
  "fst (find_master_key h e inode ctx mode s) = fst (find_master_key h e inode ctx mode s0)"
proof -
  obtain k1 s1 where 1: "find_and_lock_process_key h e (FS_KEY_DESC_PREFIX h)
      (master_key_descriptor ctx) (keysize mode) s = (k1, s1)"
    by (cases "find_and_lock_process_key h e (FS_KEY_DESC_PREFIX h)
      (master_key_descriptor ctx) (keysize mode) s")
  obtain k2 s2 where 2: "find_and_lock_process_key h e (FS_KEY_DESC_PREFIX h)
      (master_key_descriptor ctx) (keysize mode) s0 = (k2, s2)"
    by (cases "find_and_lock_process_key h e (FS_KEY_DESC_PREFIX h)
      (master_key_descriptor ctx) (keysize mode) s0")
  have k: "k1 = k2"
    using fst_find_and_lock_process_key_state [of h e "FS_KEY_DESC_PREFIX h"
            "master_key_descriptor ctx" "keysize mode" s s0] 1 2
    by simp
  show ?thesis
    unfolding find_master_key_def 1 2 k
    using fst_find_and_lock_process_key_state [of h e "the (s_cop_key_prefix inode)"
            "master_key_descriptor ctx" "keysize mode" s1 s2]
    by (cases "s_cop_key_prefix inode") auto
qed

lemma find_and_derive_key_aes_value:
  assumes "flags ctx AND FS_POLICY_FLAG_DIRECT_KEY h = 0"
    and "\<not> inline_encryption mode"
    and "fst (find_master_key h e inode ctx mode s) = Inr (ky, pl)"
    and "find_and_derive_key h e inode ctx derived_key mode s = ((Zero, dk), s2)"
  shows "dk = memcpy derived_key
      (ecb_aes_encrypt e (take (FS_KEY_DERIVATION_NONCE_SIZE h) (nonce ctx))
         (take (keysize mode) (fk_raw pl))) (keysize mode)"
proof -
  obtain s1 where 1: "find_master_key h e inode ctx mode s = (Inr (ky, pl), s1)"
    using assms(3) by (cases "find_master_key h e inode ctx mode s") simp
  from assms(1,2,4) 1 have
    "derive_key_aes h e (fk_raw pl) ctx derived_key (keysize mode) s1 =
       ((Zero, dk), snd (derive_key_aes h e (fk_raw pl) ctx derived_key (keysize mode) s1))"
    by (simp add: find_and_derive_key_def split_beta prod_eq_iff)
  then show ?thesis
    by (auto simp: derive_key_aes_def Let_def split: rc.splits if_splits)
qed

text \<open>
  Claim C3. For a context without \<^verbatim>\<open>FS_POLICY_FLAG_DIRECT_KEY\<close> and a mode that is not an
  inline-encryption mode, the key \<^verbatim>\<open>find_and_derive_key\<close> produces is the
  \<^verbatim>\<open>ecb(aes)\<close> encryption, under the nonce of the context as the AES key, of the first
  \<^verbatim>\<open>mode->keysize\<close> bytes of the master key; it is \<^verbatim>\<open>mode->keysize\<close> bytes long; and
  every other successful call with the same context and keyring produces the same key,
  whatever the kernel state and the buffer it starts with. (The buffer is the
  \<^verbatim>\<open>kmalloc(mode->keysize)\<close> of the callers, the payload's array has
  \<^verbatim>\<open>FS_MAX_KEY_SIZE\<close> bytes, and ECB keeps the length of its input.)
\<close>

theorem find_and_derive_key_aes:
  assumes "flags ctx AND FS_POLICY_FLAG_DIRECT_KEY h = 0"
    and "\<not> inline_encryption mode"
    and "find_master_key h e inode ctx mode s = (Inr (ky, pl), s1)"
    and "find_and_derive_key h e inode ctx derived_key mode s = ((Zero, dk), s2)"
    and "length derived_key = keysize mode"
    and "length (fk_raw pl) = FS_MAX_KEY_SIZE h"
    and "\<forall>k d. length (ecb_aes_encrypt e k d) = length d"
  shows "dk = ecb_aes_encrypt e (take (FS_KEY_DERIVATION_NONCE_SIZE h) (nonce ctx))
                (take (keysize mode) (fk_raw pl)) \<and>
         length dk = keysize mode \<and>
         (\<forall>t buf dk' t2. length buf = keysize mode \<and>
            find_and_derive_key h e inode ctx buf mode t = ((Zero, dk'), t2) \<longrightarrow> dk' = dk)"
proof -
  from find_master_key_valid [OF assms(3)] assms(6)
  have len: "keysize mode \<le> length (fk_raw pl)" by simp
  have f: "fst (find_master_key h e inode ctx mode t) = Inr (ky, pl)" for t
    using fst_find_master_key_state [of h e inode ctx mode t s] assms(3) by simp
  have v: "d = ecb_aes_encrypt e (take (FS_KEY_DERIVATION_NONCE_SIZE h) (nonce ctx))
                (take (keysize mode) (fk_raw pl))"
    if "length buf = keysize mode"
      and "find_and_derive_key h e inode ctx buf mode t = ((Zero, d), t2)" for buf d t t2
    using find_and_derive_key_aes_value [OF assms(1,2) f that(2)] that(1) len assms(7)
    by (simp add: memcpy_def)
  from v [OF assms(5,4)] len assms(7) v show ?thesis
    by auto
qed

theorem find_and_derive_key_aes_witness:
  "fst (find_and_derive_key example_hdr example_env example_inode example_ctx
          (replicate 64 3) (available_modes example_hdr 1) example_state) =
     (Zero, ecb_aes_encrypt example_env (take 16 (nonce example_ctx))
              (take 64 (fk_raw (data (the (payload example_key)))))) \<and>
   length (snd (fst (find_and_derive_key example_hdr example_env example_inode example_ctx
          (replicate 64 3) (available_modes example_hdr 1) example_state))) = 64"
proof -
  let ?m = "available_modes example_hdr 1"
  let ?f = "find_master_key example_hdr example_env example_inode example_ctx ?m example_state"
  let ?r = "find_and_derive_key example_hdr example_env example_inode example_ctx
              (replicate 64 3) ?m example_state"
  have a1: "flags example_ctx AND FS_POLICY_FLAG_DIRECT_KEY example_hdr = 0"
    by code_simp
  have a2: "\<not> inline_encryption ?m"
    by code_simp
  have "fst ?f = Inr (example_key, data (the (payload example_key)))"
    by code_simp
  then have a3: "?f = (Inr (example_key, data (the (payload example_key))), snd ?f)"
    by (simp add: prod_eq_iff)
  have "fst (fst ?r) = Zero"
    by code_simp
  then have a4: "?r = ((Zero, snd (fst ?r)), snd ?r)"
    by (simp add: prod_eq_iff)
  have a5: "length (replicate 64 (3::u8)) = keysize ?m"
    by code_simp
  have a6: "length (fk_raw (data (the (payload example_key)))) = FS_MAX_KEY_SIZE example_hdr"
    by code_simp
  have a7: "\<forall>k d. length (ecb_aes_encrypt example_env k d) = length d"
    by (simp add: example_env_def)
  have k: "keysize ?m = 64" "FS_KEY_DERIVATION_NONCE_SIZE example_hdr = 16"
    by code_simp+
  have z: "fst (fst ?r) = Zero"
    by code_simp
  from find_and_derive_key_aes [OF a1 a2 a3 a4 a5 a6 a7]
  have c: "snd (fst ?r) =
             ecb_aes_encrypt example_env
               (take (FS_KEY_DERIVATION_NONCE_SIZE example_hdr) (nonce example_ctx))
               (take (keysize ?m) (fk_raw (data (the (payload example_key)))))"
    and l: "length (snd (fst ?r)) = keysize ?m"
    by blast+
  from z c l show ?thesis
    unfolding k prod_eq_iff fst_conv snd_conv by (intro conjI)
qed

theorem find_and_derive_key_direct_key_witness:
  "fst (find_and_derive_key example_hdr example_env example_inode
          (example_ctx\<lparr>flags := 4, contents_encryption_mode := 9,
                        filenames_encryption_mode := 9\<rparr>)
          (replicate 32 3) (available_modes example_hdr 9) example_state) =
     (Zero, replicate 32 7) \<and>
   fst (find_and_derive_key example_hdr example_env example_inode
          (example_ctx\<lparr>flags := 4\<rparr>)
          (replicate 64 3) (available_modes example_hdr 1) example_state) =
     (Neg EINVAL, replicate 64 3)"
proof -
  let ?c9 = "example_ctx\<lparr>flags := 4, contents_encryption_mode := 9,
                        filenames_encryption_mode := 9\<rparr>"
  let ?c1 = "example_ctx\<lparr>flags := 4\<rparr>"
  let ?f9 = "find_master_key example_hdr example_env example_inode ?c9
               (available_modes example_hdr 9) example_state"
  let ?f1 = "find_master_key example_hdr example_env example_inode ?c1
               (available_modes example_hdr 1) example_state"
  have d9: "flags ?c9 AND FS_POLICY_FLAG_DIRECT_KEY example_hdr \<noteq> 0"
    by code_simp
  have d1: "flags ?c1 AND FS_POLICY_FLAG_DIRECT_KEY example_hdr \<noteq> 0"
    by code_simp
  have f9: "?f9 = (fst ?f9, snd ?f9)" and f1: "?f1 = (fst ?f1, snd ?f1)"
    by simp_all
  have v9: "fst ?f9 = Inr (example_key, data (the (payload example_key)))"
    by code_simp
  have v1: "fst ?f1 = Inr (example_key, data (the (payload example_key)))"
    by code_simp
  have m9: "\<not> ivsize (available_modes example_hdr 9) < offsetofend_iv_nonce example_hdr"
    "contents_encryption_mode ?c9 = filenames_encryption_mode ?c9"
    "memcpy (replicate 32 3) (fk_raw (data (the (payload example_key))))
       (keysize (available_modes example_hdr 9)) = replicate 32 7"
    by code_simp+
  have m1: "ivsize (available_modes example_hdr 1) < offsetofend_iv_nonce example_hdr"
    by code_simp
  from find_and_derive_key_direct_key [OF d9 f9, of "replicate 32 3"]
       find_and_derive_key_direct_key [OF d1 f1, of "replicate 64 3"]
       v9 v1 m9 m1
  show ?thesis
    by simp
qed

text \<open>
  Claim C4 as the specification words it has every direct-key policy with too small an IV
  size, or with differing mode ids, fail with \<^verbatim>\<open>-EINVAL\<close>. With AES-256-XTS (IV size 16),
  differing mode ids and an empty keyring, \<^verbatim>\<open>find_and_derive_key\<close> returns \<^verbatim>\<open>-ENOKEY\<close>,
  and \<^verbatim>\<open>fscrypt_get_encryption_info\<close> returns 0.
\<close>

theorem find_and_derive_key_direct_key_nokey_counterexample:
  "flags (example_ctx\<lparr>flags := 4\<rparr>) AND FS_POLICY_FLAG_DIRECT_KEY example_hdr \<noteq> 0 \<and>
   ivsize (available_modes example_hdr 1) < offsetofend_iv_nonce example_hdr \<and>
   contents_encryption_mode (example_ctx\<lparr>flags := 4\<rparr>) \<noteq>
     filenames_encryption_mode (example_ctx\<lparr>flags := 4\<rparr>) \<and>
   fst (find_and_derive_key example_hdr example_env_nokey example_inode
          (example_ctx\<lparr>flags := 4\<rparr>) (replicate 64 3)
          (available_modes example_hdr 1) example_state) = (Neg ENOKEY, replicate 64 3) \<and>
   fst (fscrypt_get_encryption_info example_hdr
          (example_env_nokey\<lparr>get_context := Inr (32, example_ctx\<lparr>flags := 4\<rparr>)\<rparr>)
          example_inode example_state) = Zero"
  by code_simp

subsection \<open>Resolving the crypto info of an inode\<close>

text \<open>A lookup whose key is unavailable in the specification's sense ends at
  \<^verbatim>\<open>ERR_PTR(-ENOKEY)\<close>, for the absent key and for each malformed payload alike.\<close>

lemma find_and_lock_process_key_unavailable:
  assumes "kasprintf_ok e (key_description h prefix d)"
    and "key_unavailable h e (key_description h prefix d) n"
  shows "fst (find_and_lock_process_key h e prefix d n t) = Inl ENOKEY"
  using assms
  by (auto simp: find_and_lock_process_key_def key_unavailable_def key_description_def
        invalid_def Let_def split: sum.splits option.splits)

lemma find_master_key_unavailable:
  assumes "kasprintf_ok e (key_description h (FS_KEY_DESC_PREFIX h) (master_key_descriptor ctx))"
    and "key_unavailable h e
           (key_description h (FS_KEY_DESC_PREFIX h) (master_key_descriptor ctx)) (keysize mode)"
    and "\<forall>p. s_cop_key_prefix inode = Some p \<longrightarrow>
           kasprintf_ok e (key_description h p (master_key_descriptor ctx)) \<and>
           key_unavailable h e (key_description h p (master_key_descriptor ctx)) (keysize mode)"
  shows "fst (find_master_key h e inode ctx mode t) = Inl ENOKEY"
proof -
  obtain k1 s1 where 1: "find_and_lock_process_key h e (FS_KEY_DESC_PREFIX h)
      (master_key_descriptor ctx) (keysize mode) t = (k1, s1)"
    by (cases "find_and_lock_process_key h e (FS_KEY_DESC_PREFIX h)
      (master_key_descriptor ctx) (keysize mode) t")
  from find_and_lock_process_key_unavailable [OF assms(1,2), of t] 1
  have k1: "k1 = Inl ENOKEY" by simp
  show ?thesis
  proof (cases "s_cop_key_prefix inode")
    case None
    with 1 k1 show ?thesis by (simp add: find_master_key_def)
  next
    case (Some p)
    with assms(3) have "fst (find_and_lock_process_key h e p (master_key_descriptor ctx)
        (keysize mode) s1) = Inl ENOKEY"
      by (intro find_and_lock_process_key_unavailable) auto
    with 1 k1 Some show ?thesis by (simp add: find_master_key_def)
  qed
qed

lemma find_and_derive_key_unavailable:
  assumes "fst (find_master_key h e inode ctx mode t) = Inl ENOKEY"
  shows "find_and_derive_key h e inode ctx buf mode t =
           ((Neg ENOKEY, buf), snd (find_master_key h e inode ctx mode t))"
  using assms by (cases "find_master_key h e inode ctx mode t") (simp add: find_and_derive_key_def)

text \<open>
  Claim C2. Take an inode with no crypto info yet and a well-formed policy: the context
  is read in full, has the supported format and only valid flags, its modes are a
  recognised pair and the inode is of a kind that a mode is selected for; the
  allocations succeed and the file is not handed to the SDP provider. If the master key
  is unavailable under the standard prefix, and under the filesystem's own prefix when
  it has one (absent, revoked, payload of the wrong size, declared key length outside
  \<open>[1, FS_MAX_KEY_SIZE]\<close> or below the key size of the mode), then
  \<^verbatim>\<open>fscrypt_get_encryption_info\<close> returns 0 and leaves the inode as it was, with no
  crypto info. The absent key and the malformed payload give the same result.
\<close>

theorem fscrypt_get_encryption_info_nokey:
  assumes "i_crypt_info inode = None"
    and "fscrypt_initialize e (s_cop_flags inode) = Zero"
    and "get_context e = Inr (sizeof_fscrypt_context h, ctx)"
    and "format ctx = FS_ENCRYPTION_CONTEXT_FORMAT_V1 h"
    and "flags ctx AND NOT (FS_POLICY_FLAGS_VALID h) = 0"
    and "fscrypt_valid_enc_modes h (contents_encryption_mode ctx) (filenames_encryption_mode ctx)"
    and "i_mode inode = S_IFREG \<and>
           (inline_encryption (available_modes h (selected_mode inode ctx)) \<longrightarrow>
              fscrypt_is_ice_capable e) \<or>
         i_mode inode = S_IFDIR \<or> i_mode inode = S_IFLNK"
    and "kmem_cache_zalloc_ok e"
    and "kmalloc e (keysize (available_modes h (selected_mode inode ctx))) \<noteq> None"
    and "\<not> sdp_only_flag e (knox_flags ctx)"
    and "kasprintf_ok e (key_description h (FS_KEY_DESC_PREFIX h) (master_key_descriptor ctx))"
    and "key_unavailable h e
           (key_description h (FS_KEY_DESC_PREFIX h) (master_key_descriptor ctx))
           (keysize (available_modes h (selected_mode inode ctx)))"
    and "\<forall>p. s_cop_key_prefix inode = Some p \<longrightarrow>
           kasprintf_ok e (key_description h p (master_key_descriptor ctx)) \<and>
           key_unavailable h e (key_description h p (master_key_descriptor ctx))
             (keysize (available_modes h (selected_mode inode ctx)))"
  shows "fst (fscrypt_get_encryption_info h e inode s) = Zero \<and>
         fst (snd (fscrypt_get_encryption_info h e inode s)) = inode \<and>
         i_crypt_info (fst (snd (fscrypt_get_encryption_info h e inode s))) = None"
proof -
  let ?m = "available_modes h (selected_mode inode ctx)"
  have d: "find_and_derive_key h e inode ctx buf ?m t =
           ((Neg ENOKEY, buf), snd (find_master_key h e inode ctx ?m t))" for buf t
    by (rule find_and_derive_key_unavailable)
       (rule find_master_key_unavailable [OF assms(11,12,13)])
  from assms(9) obtain buf where b: "kmalloc e (keysize ?m) = Some buf" by auto
  have sel: "select_encryption_mode h e ci inode t = (Inr (selected_mode inode ctx), t)"
    if "ci_data_mode ci = contents_encryption_mode ctx"
      and "ci_filename_mode ci = filenames_encryption_mode ctx" for ci t
    using assms(6,7) that
    by (auto simp: select_encryption_mode_def selected_mode_def Let_def)
  have sdp: "get_encryption_info_sdp e ctx ci rk n t = (Sdp_fallthrough ci, t)" for ci rk n t
    using assms(10) by (simp add: get_encryption_info_sdp_def)
  have out: "fst (get_encryption_info_out (Neg ENOKEY) ci rk inode t) = Zero \<and>
             fst (snd (get_encryption_info_out (Neg ENOKEY) ci rk inode t)) = inode" for ci rk t
    by (simp add: get_encryption_info_out_def Let_def)
  have "fst (fscrypt_get_encryption_info h e inode s) = Zero \<and>
        fst (snd (fscrypt_get_encryption_info h e inode s)) = inode"
    unfolding fscrypt_get_encryption_info_def
    by (simp add: assms(1-5,8) Let_def sel sdp b d out)
  with assms(1) show ?thesis by simp
qed


theorem fscrypt_get_encryption_info_nokey_witness:
  "fst (fscrypt_get_encryption_info example_hdr example_env_nokey example_inode
          example_state) = Zero \<and>
   i_crypt_info (fst (snd (fscrypt_get_encryption_info example_hdr example_env_nokey
          example_inode example_state))) = None \<and>
   fst (fscrypt_get_encryption_info example_hdr example_env_badkey
          (example_inode\<lparr>s_cop_key_prefix := Some ''ext4:''\<rparr>) example_state) = Zero \<and>
   i_crypt_info (fst (snd (fscrypt_get_encryption_info example_hdr example_env_badkey
          (example_inode\<lparr>s_cop_key_prefix := Some ''ext4:''\<rparr>) example_state))) = None"
proof -
  let ?i = "example_inode\<lparr>s_cop_key_prefix := Some ''ext4:''\<rparr>"
  have n1: "i_crypt_info example_inode = None"
    and n2: "fscrypt_initialize example_env_nokey (s_cop_flags example_inode) = Zero"
    and n3: "get_context example_env_nokey =
               Inr (sizeof_fscrypt_context example_hdr, example_ctx)"
    and n4: "format example_ctx = FS_ENCRYPTION_CONTEXT_FORMAT_V1 example_hdr"
    and n5: "flags example_ctx AND NOT (FS_POLICY_FLAGS_VALID example_hdr) = 0"
    and n6: "fscrypt_valid_enc_modes example_hdr (contents_encryption_mode example_ctx)
               (filenames_encryption_mode example_ctx)"
    and n7: "i_mode example_inode = S_IFREG \<and>
               (inline_encryption (available_modes example_hdr
                  (selected_mode example_inode example_ctx)) \<longrightarrow>
                fscrypt_is_ice_capable example_env_nokey) \<or>
             i_mode example_inode = S_IFDIR \<or> i_mode example_inode = S_IFLNK"
    and n8: "kmem_cache_zalloc_ok example_env_nokey"
    and n9: "kmalloc example_env_nokey (keysize (available_modes example_hdr
               (selected_mode example_inode example_ctx))) \<noteq> None"
    and n10: "\<not> sdp_only_flag example_env_nokey (knox_flags example_ctx)"
    and n11: "kasprintf_ok example_env_nokey (key_description example_hdr
               (FS_KEY_DESC_PREFIX example_hdr) (master_key_descriptor example_ctx))"
    and n12: "key_unavailable example_hdr example_env_nokey
               (key_description example_hdr (FS_KEY_DESC_PREFIX example_hdr)
                  (master_key_descriptor example_ctx))
               (keysize (available_modes example_hdr
                  (selected_mode example_inode example_ctx)))"
    by code_simp+
  have n13: "\<forall>p. s_cop_key_prefix example_inode = Some p \<longrightarrow>
      kasprintf_ok example_env_nokey
        (key_description example_hdr p (master_key_descriptor example_ctx)) \<and>
      key_unavailable example_hdr example_env_nokey
        (key_description example_hdr p (master_key_descriptor example_ctx))
        (keysize (available_modes example_hdr (selected_mode example_inode example_ctx)))"
    by (simp add: example_inode_def)
  have b1: "i_crypt_info ?i = None"
    and b2: "fscrypt_initialize example_env_badkey (s_cop_flags ?i) = Zero"
    and b3: "get_context example_env_badkey =
               Inr (sizeof_fscrypt_context example_hdr, example_ctx)"
    and b7: "i_mode ?i = S_IFREG \<and>
               (inline_encryption (available_modes example_hdr
                  (selected_mode ?i example_ctx)) \<longrightarrow>
                fscrypt_is_ice_capable example_env_badkey) \<or>
             i_mode ?i = S_IFDIR \<or> i_mode ?i = S_IFLNK"
    and b8: "kmem_cache_zalloc_ok example_env_badkey"
    and b9: "kmalloc example_env_badkey (keysize (available_modes example_hdr
               (selected_mode ?i example_ctx))) \<noteq> None"
    and b10: "\<not> sdp_only_flag example_env_badkey (knox_flags example_ctx)"
    and b11: "kasprintf_ok example_env_badkey (key_description example_hdr
               (FS_KEY_DESC_PREFIX example_hdr) (master_key_descriptor example_ctx))"
    and b12: "key_unavailable example_hdr example_env_badkey
               (key_description example_hdr (FS_KEY_DESC_PREFIX example_hdr)
                  (master_key_descriptor example_ctx))
               (keysize (available_modes example_hdr (selected_mode ?i example_ctx)))"
    and b14: "kasprintf_ok example_env_badkey
        (key_description example_hdr ''ext4:'' (master_key_descriptor example_ctx)) \<and>
      key_unavailable example_hdr example_env_badkey
        (key_description example_hdr ''ext4:'' (master_key_descriptor example_ctx))
        (keysize (available_modes example_hdr (selected_mode ?i example_ctx)))"
    by code_simp+
  have b13: "\<forall>p. s_cop_key_prefix ?i = Some p \<longrightarrow>
      kasprintf_ok example_env_badkey
        (key_description example_hdr p (master_key_descriptor example_ctx)) \<and>
      key_unavailable example_hdr example_env_badkey
        (key_description example_hdr p (master_key_descriptor example_ctx))
        (keysize (available_modes example_hdr (selected_mode ?i example_ctx)))"
    using b14 by simp
  from fscrypt_get_encryption_info_nokey
         [OF n1 n2 n3 n4 n5 n6 n7 n8 n9 n10 n11 n12 n13, of example_state]
       fscrypt_get_encryption_info_nokey
         [OF b1 b2 b3 n4 n5 n6 b7 b8 b9 b10 b11 b12 b13, of example_state]
  show ?thesis by blast
qed

text \<open>
  Claim C8. For an inode with no crypto info yet whose stored context, read in full, has
  a format other than \<^verbatim>\<open>FS_ENCRYPTION_CONTEXT_FORMAT_V1\<close> or a flag outside
  \<^verbatim>\<open>FS_POLICY_FLAGS_VALID\<close>, \<^verbatim>\<open>fscrypt_get_encryption_info\<close> returns \<^verbatim>\<open>-EINVAL\<close> and
  has by then called \<^verbatim>\<open>fscrypt_initialize\<close> and \<^verbatim>\<open>get_context\<close> only: no key was
  requested, no crypto info allocated, no transform allocated or used; the inode and
  the globals are as before.
\<close>

theorem fscrypt_get_encryption_info_invalid_policy:
  assumes "i_crypt_info inode = None"
    and "fscrypt_initialize e (s_cop_flags inode) = Zero"
    and "get_context e = Inr (sizeof_fscrypt_context h, ctx)"
    and "format ctx \<noteq> FS_ENCRYPTION_CONTEXT_FORMAT_V1 h \<or>
         flags ctx AND NOT (FS_POLICY_FLAGS_VALID h) \<noteq> 0"
  shows "fscrypt_get_encryption_info h e inode s =
           (Neg EINVAL, inode, s\<lparr>trace := trace s @ [Fscrypt_initialize, Get_context]\<rparr>)"
  using assms
  unfolding fscrypt_get_encryption_info_def
  by (auto simp: Let_def emit_def)

theorem fscrypt_get_encryption_info_invalid_policy_witness:
  "fscrypt_get_encryption_info example_hdr
     (example_env\<lparr>get_context := Inr (32, example_ctx\<lparr>format := 2\<rparr>)\<rparr>)
     example_inode example_state =
     (Neg EINVAL, example_inode,
      example_state\<lparr>trace := trace example_state @ [Fscrypt_initialize, Get_context]\<rparr>) \<and>
   fscrypt_get_encryption_info example_hdr
     (example_env\<lparr>get_context := Inr (32, example_ctx\<lparr>flags := 8\<rparr>)\<rparr>)
     example_inode example_state =
     (Neg EINVAL, example_inode,
      example_state\<lparr>trace := trace example_state @ [Fscrypt_initialize, Get_context]\<rparr>)"
proof -
  let ?e1 = "example_env\<lparr>get_context := Inr (32, example_ctx\<lparr>format := 2\<rparr>)\<rparr>"
  let ?e2 = "example_env\<lparr>get_context := Inr (32, example_ctx\<lparr>flags := 8\<rparr>)\<rparr>"
  have a1: "i_crypt_info example_inode = None"
    and a2: "fscrypt_initialize ?e1 (s_cop_flags example_inode) = Zero"
    and a3: "get_context ?e1 =
               Inr (sizeof_fscrypt_context example_hdr, example_ctx\<lparr>format := 2\<rparr>)"
    and a4: "format (example_ctx\<lparr>format := 2\<rparr>) \<noteq>
               FS_ENCRYPTION_CONTEXT_FORMAT_V1 example_hdr \<or>
             flags (example_ctx\<lparr>format := 2\<rparr>) AND
               NOT (FS_POLICY_FLAGS_VALID example_hdr) \<noteq> 0"
    and b2: "fscrypt_initialize ?e2 (s_cop_flags example_inode) = Zero"
    and b3: "get_context ?e2 =
               Inr (sizeof_fscrypt_context example_hdr, example_ctx\<lparr>flags := 8\<rparr>)"
    and b4: "format (example_ctx\<lparr>flags := 8\<rparr>) \<noteq>
               FS_ENCRYPTION_CONTEXT_FORMAT_V1 example_hdr \<or>
             flags (example_ctx\<lparr>flags := 8\<rparr>) AND
               NOT (FS_POLICY_FLAGS_VALID example_hdr) \<noteq> 0"
    by code_simp+
  from fscrypt_get_encryption_info_invalid_policy [OF a1 a2 a3 a4, of example_state]
       fscrypt_get_encryption_info_invalid_policy [OF a1 b2 b3 b4, of example_state]
  show ?thesis by (intro conjI)
qed

subsection \<open>Exporting the key of an inode\<close>

lemma memzero_all: "memzero b (length b) = replicate (length b) 0"
  by (simp add: memzero_def)

lemma trace_select_encryption_mode:
  "\<exists>w. trace (snd (select_encryption_mode h e ci inode t)) = trace t @ w \<and>
       (\<forall>n. Kmalloc n \<notin> set w)"
  by (auto simp: select_encryption_mode_def Let_def emit_def)

text \<open>No mode of \<^verbatim>\<open>available_modes\<close> has a key of more than 64 bytes.\<close>

lemma available_modes_keysize_le: "keysize (available_modes h i) \<le> 64"
  by (simp add: available_modes_def zero_mode_def)

text \<open>
  Claim C10. \<^verbatim>\<open>fscrypt_get_encryption_key\<close> returns \<^verbatim>\<open>-EINVAL\<close> for an inode with no
  crypto info. For an inode with crypto info whose context is read in full and valid and
  for which a mode is selected: if the key size of the mode exceeds \<^verbatim>\<open>FS_MAX_KEY_SIZE\<close>
  the result is \<^verbatim>\<open>-EPERM\<close>; otherwise, once the buffer is allocated, the status is that
  of \<^verbatim>\<open>find_and_derive_key\<close>, and on success \<^verbatim>\<open>key->size\<close> is \<^verbatim>\<open>mode->keysize\<close>,
  the first \<^verbatim>\<open>mode->keysize\<close> bytes of \<^verbatim>\<open>key->raw\<close> are the first
  \<^verbatim>\<open>mode->keysize\<close> bytes that \<^verbatim>\<open>find_and_derive_key\<close> left in the buffer, and the
  bytes of \<^verbatim>\<open>key->raw\<close> after them are as they were. On every path on which a buffer
  was allocated, the last thing the function does is to give it back, zeroed. The
  \<^verbatim>\<open>-EPERM\<close> branch is taken only under a header whose \<^verbatim>\<open>FS_MAX_KEY_SIZE\<close> is below
  64: with 64 or more no mode of the table reaches it.
\<close>

theorem fscrypt_get_encryption_key_cases:
  "(i_crypt_info inode = None \<longrightarrow>
      fscrypt_get_encryption_key h e inode ky s = (Neg EINVAL, ky, s)) \<and>
   (\<forall>ci ctx mode s1.
      i_crypt_info inode = Some ci \<and>
      get_context e = Inr (sizeof_fscrypt_context h, ctx) \<and>
      format ctx = FS_ENCRYPTION_CONTEXT_FORMAT_V1 h \<and>
      flags ctx AND NOT (FS_POLICY_FLAGS_VALID h) = 0 \<and>
      select_encryption_mode h e ci inode (emit Get_context s) = (Inr mode, s1) \<longrightarrow>
      (FS_MAX_KEY_SIZE h < keysize (available_modes h mode) \<longrightarrow>
         fscrypt_get_encryption_key h e inode ky s = (Neg EPERM, ky, s1)) \<and>
      (\<forall>buf r dk s2.
         \<not> FS_MAX_KEY_SIZE h < keysize (available_modes h mode) \<and>
         kmalloc e (keysize (available_modes h mode)) = Some buf \<and>
         find_and_derive_key h e inode ctx buf (available_modes h mode)
           (emit (Kmalloc (keysize (available_modes h mode))) s1) = ((r, dk), s2) \<longrightarrow>
         fscrypt_get_encryption_key h e inode ky s =
           (r,
            (if r = Zero
             then ky\<lparr>fk_raw := take (keysize (available_modes h mode)) dk @
                                  drop (keysize (available_modes h mode)) (fk_raw ky),
                     fk_size := keysize (available_modes h mode)\<rparr>
             else ky),
            emit (Kfree_buffer (replicate (length dk) 0)) s2))) \<and>
   ((\<exists>n. Kmalloc n \<in> set (drop (length (trace s))
              (trace (snd (snd (fscrypt_get_encryption_key h e inode ky s))))) \<and>
          kmalloc e n \<noteq> None) \<longrightarrow>
    (\<exists>k. trace (snd (snd (fscrypt_get_encryption_key h e inode ky s))) \<noteq> [] \<and>
         last (trace (snd (snd (fscrypt_get_encryption_key h e inode ky s)))) =
           Kfree_buffer (replicate k 0))) \<and>
   (\<forall>mode. 64 \<le> FS_MAX_KEY_SIZE h \<longrightarrow>
      \<not> FS_MAX_KEY_SIZE h < keysize (available_modes h mode))"
proof (intro conjI)
  show "i_crypt_info inode = None \<longrightarrow>
      fscrypt_get_encryption_key h e inode ky s = (Neg EINVAL, ky, s)"
    by (simp add: fscrypt_get_encryption_key_def)
next
  show "\<forall>ci ctx mode s1.
      i_crypt_info inode = Some ci \<and>
      get_context e = Inr (sizeof_fscrypt_context h, ctx) \<and>
      format ctx = FS_ENCRYPTION_CONTEXT_FORMAT_V1 h \<and>
      flags ctx AND NOT (FS_POLICY_FLAGS_VALID h) = 0 \<and>
      select_encryption_mode h e ci inode (emit Get_context s) = (Inr mode, s1) \<longrightarrow>
      (FS_MAX_KEY_SIZE h < keysize (available_modes h mode) \<longrightarrow>
         fscrypt_get_encryption_key h e inode ky s = (Neg EPERM, ky, s1)) \<and>
      (\<forall>buf r dk s2.
         \<not> FS_MAX_KEY_SIZE h < keysize (available_modes h mode) \<and>
         kmalloc e (keysize (available_modes h mode)) = Some buf \<and>
         find_and_derive_key h e inode ctx buf (available_modes h mode)
           (emit (Kmalloc (keysize (available_modes h mode))) s1) = ((r, dk), s2) \<longrightarrow>
         fscrypt_get_encryption_key h e inode ky s =
           (r,
            (if r = Zero
             then ky\<lparr>fk_raw := take (keysize (available_modes h mode)) dk @
                                  drop (keysize (available_modes h mode)) (fk_raw ky),
                     fk_size := keysize (available_modes h mode)\<rparr>
             else ky),
            emit (Kfree_buffer (replicate (length dk) 0)) s2))"
    by (auto simp: fscrypt_get_encryption_key_def Let_def kzfree_buffer_def memzero_all
             memcpy_def split: rc.splits)
next
  show "\<forall>mode. 64 \<le> FS_MAX_KEY_SIZE h \<longrightarrow>
      \<not> FS_MAX_KEY_SIZE h < keysize (available_modes h mode)"
    using available_modes_keysize_le [of h] by (auto simp: not_less intro: order_trans)
next
  let ?s' = "snd (snd (fscrypt_get_encryption_key h e inode ky s))"
  show "(\<exists>n. Kmalloc n \<in> set (drop (length (trace s)) (trace ?s')) \<and> kmalloc e n \<noteq> None) \<longrightarrow>
    (\<exists>k. trace ?s' \<noteq> [] \<and> last (trace ?s') = Kfree_buffer (replicate k 0))"
  proof (cases "i_crypt_info inode")
    case None
    then show ?thesis by (simp add: fscrypt_get_encryption_key_def)
  next
    case (Some ci)
    obtain r t where sel: "select_encryption_mode h e ci inode (emit Get_context s) = (r, t)"
      by (cases "select_encryption_mode h e ci inode (emit Get_context s)")
    from trace_select_encryption_mode [of h e ci inode "emit Get_context s"] sel
    obtain w where w: "trace t = trace s @ Get_context # w" "\<forall>n. Kmalloc n \<notin> set w"
      by (auto simp: emit_def)
    show ?thesis
      using Some sel w
      by (auto simp: fscrypt_get_encryption_key_def Let_def kzfree_buffer_def memzero_all
               emit_def split: sum.splits rc.splits option.splits prod.splits if_splits)
  qed
qed


theorem fscrypt_get_encryption_key_cases_witness:
  "fscrypt_get_encryption_key example_hdr example_env example_inode
     \<lparr>fk_mode = 0, fk_raw = replicate 64 0, fk_size = 0\<rparr> example_state =
     (Neg EINVAL, \<lparr>fk_mode = 0, fk_raw = replicate 64 0, fk_size = 0\<rparr>, example_state) \<and>
   fst (fscrypt_get_encryption_key (example_hdr\<lparr>FS_MAX_KEY_SIZE := 32\<rparr>) example_env
     (example_inode\<lparr>i_crypt_info := Some example_info\<rparr>)
     \<lparr>fk_mode = 0, fk_raw = replicate 64 0, fk_size = 0\<rparr> example_state) = Neg EPERM \<and>
   \<not> FS_MAX_KEY_SIZE example_hdr < keysize (available_modes example_hdr 1) \<and>
   fst (fscrypt_get_encryption_key example_hdr example_env
     (example_inode\<lparr>i_crypt_info := Some example_info\<rparr>)
     \<lparr>fk_mode = 0, fk_raw = replicate 64 0, fk_size = 0\<rparr> example_state) = Zero \<and>
   fk_size (fst (snd (fscrypt_get_encryption_key example_hdr example_env
     (example_inode\<lparr>i_crypt_info := Some example_info\<rparr>)
     \<lparr>fk_mode = 0, fk_raw = replicate 64 0, fk_size = 0\<rparr> example_state))) = 64 \<and>
   fk_raw (fst (snd (fscrypt_get_encryption_key example_hdr example_env
     (example_inode\<lparr>i_crypt_info := Some example_info\<rparr>)
     \<lparr>fk_mode = 0, fk_raw = replicate 64 0, fk_size = 0\<rparr> example_state))) =
     replicate 64 7 \<and>
   fk_size (fst (snd (fscrypt_get_encryption_key example_hdr example_env
     (example_inode\<lparr>i_mode := S_IFDIR, i_crypt_info := Some example_info\<rparr>)
     \<lparr>fk_mode = 0, fk_raw = replicate 64 0, fk_size = 0\<rparr> example_state))) = 32 \<and>
   fk_raw (fst (snd (fscrypt_get_encryption_key example_hdr example_env
     (example_inode\<lparr>i_mode := S_IFDIR, i_crypt_info := Some example_info\<rparr>)
     \<lparr>fk_mode = 0, fk_raw = replicate 64 0, fk_size = 0\<rparr> example_state))) =
     replicate 32 7 @ replicate 32 0 \<and>
   (\<exists>k. last (trace (snd (snd (fscrypt_get_encryption_key example_hdr example_env
     (example_inode\<lparr>i_crypt_info := Some example_info\<rparr>)
     \<lparr>fk_mode = 0, fk_raw = replicate 64 0, fk_size = 0\<rparr> example_state)))) =
       Kfree_buffer (replicate k 0))"
proof -
  let ?ky = "\<lparr>fk_mode = 0, fk_raw = replicate 64 0, fk_size = 0\<rparr>"
  let ?i = "example_inode\<lparr>i_crypt_info := Some example_info\<rparr>"
  let ?d = "example_inode\<lparr>i_mode := S_IFDIR, i_crypt_info := Some example_info\<rparr>"
  let ?h = "example_hdr\<lparr>FS_MAX_KEY_SIZE := 32\<rparr>"
  let ?sel = "\<lambda>h. select_encryption_mode h example_env example_info ?i
                 (emit Get_context example_state)"
  let ?seld = "select_encryption_mode example_hdr example_env example_info ?d
                 (emit Get_context example_state)"
  let ?s1 = "snd (?sel example_hdr)"
  let ?fd = "find_and_derive_key example_hdr example_env ?i example_ctx (replicate 64 3)
               (available_modes example_hdr 1)
               (emit (Kmalloc (keysize (available_modes example_hdr 1))) ?s1)"
  let ?fdd = "find_and_derive_key example_hdr example_env ?d example_ctx (replicate 32 3)
               (available_modes example_hdr 4)
               (emit (Kmalloc (keysize (available_modes example_hdr 4))) (snd ?seld))"
  have i0: "i_crypt_info example_inode = None"
    by code_simp
  have fr: "i_crypt_info ?i = Some example_info"
    "i_crypt_info ?d = Some example_info"
    "get_context example_env = Inr (sizeof_fscrypt_context example_hdr, example_ctx)"
    "get_context example_env = Inr (sizeof_fscrypt_context ?h, example_ctx)"
    "format example_ctx = FS_ENCRYPTION_CONTEXT_FORMAT_V1 example_hdr"
    "format example_ctx = FS_ENCRYPTION_CONTEXT_FORMAT_V1 ?h"
    "flags example_ctx AND NOT (FS_POLICY_FLAGS_VALID example_hdr) = 0"
    "flags example_ctx AND NOT (FS_POLICY_FLAGS_VALID ?h) = 0"
    by code_simp+
  have "fst (?sel example_hdr) = Inr 1" "fst (?sel ?h) = Inr 1" "fst ?seld = Inr 4"
    by code_simp+
  then have sel: "?sel example_hdr = (Inr 1, ?s1)" "?sel ?h = (Inr 1, snd (?sel ?h))"
    "?seld = (Inr 4, snd ?seld)"
    by (simp_all add: prod_eq_iff)
  have big: "FS_MAX_KEY_SIZE ?h < keysize (available_modes ?h 1)"
    and small: "\<not> FS_MAX_KEY_SIZE example_hdr < keysize (available_modes example_hdr 1)"
    and smalld: "\<not> FS_MAX_KEY_SIZE example_hdr < keysize (available_modes example_hdr 4)"
    and km: "kmalloc example_env (keysize (available_modes example_hdr 1)) =
               Some (replicate 64 3)"
    and kmd: "kmalloc example_env (keysize (available_modes example_hdr 4)) =
               Some (replicate 32 3)"
    and ks: "keysize (available_modes example_hdr 1) = 64"
    and ksd: "keysize (available_modes example_hdr 4) = 32"
    and mx: "64 \<le> FS_MAX_KEY_SIZE example_hdr"
    by code_simp+
  have "fst (fst ?fd) = Zero" "fst (fst ?fdd) = Zero"
    by code_simp+
  then have fd: "?fd = ((Zero, snd (fst ?fd)), snd ?fd)"
    and fdd: "?fdd = ((Zero, snd (fst ?fdd)), snd ?fdd)"
    by (simp_all add: prod_eq_iff)
  have raw: "take (keysize (available_modes example_hdr 1)) (snd (fst ?fd)) @
               drop (keysize (available_modes example_hdr 1)) (fk_raw ?ky) = replicate 64 7"
    and rawd: "take (keysize (available_modes example_hdr 4)) (snd (fst ?fdd)) @
               drop (keysize (available_modes example_hdr 4)) (fk_raw ?ky) =
               replicate 32 7 @ replicate 32 0"
    by code_simp+
  have alloc: "\<exists>n. Kmalloc n \<in> set (drop (length (trace example_state))
        (trace (snd (snd (fscrypt_get_encryption_key example_hdr example_env ?i ?ky
           example_state))))) \<and> kmalloc example_env n \<noteq> None"
    by (rule exI [of _ 64]) code_simp
  note c = fscrypt_get_encryption_key_cases
  from c [of example_inode example_hdr example_env ?ky example_state] i0
  have A: "fscrypt_get_encryption_key example_hdr example_env example_inode ?ky
             example_state = (Neg EINVAL, ?ky, example_state)"
    by blast
  have pB: "i_crypt_info ?i = Some example_info \<and>
      get_context example_env = Inr (sizeof_fscrypt_context ?h, example_ctx) \<and>
      format example_ctx = FS_ENCRYPTION_CONTEXT_FORMAT_V1 ?h \<and>
      flags example_ctx AND NOT (FS_POLICY_FLAGS_VALID ?h) = 0 \<and>
      ?sel ?h = (Inr 1, snd (?sel ?h))"
    by (intro conjI) (rule fr sel)+
  from c [of ?i ?h example_env ?ky example_state, THEN conjunct2, THEN conjunct1,
          rule_format, OF pB, THEN conjunct1, rule_format, OF big]
  have B: "fst (fscrypt_get_encryption_key ?h example_env ?i ?ky example_state) = Neg EPERM"
    by simp
  have N: "\<not> FS_MAX_KEY_SIZE example_hdr < keysize (available_modes example_hdr 1)"
    by (rule c [of example_inode example_hdr example_env ?ky example_state,
                THEN conjunct2, THEN conjunct2, THEN conjunct2, rule_format, OF mx])
  have pC: "i_crypt_info ?i = Some example_info \<and>
      get_context example_env = Inr (sizeof_fscrypt_context example_hdr, example_ctx) \<and>
      format example_ctx = FS_ENCRYPTION_CONTEXT_FORMAT_V1 example_hdr \<and>
      flags example_ctx AND NOT (FS_POLICY_FLAGS_VALID example_hdr) = 0 \<and>
      ?sel example_hdr = (Inr 1, ?s1)"
    by (intro conjI) (rule fr sel)+
  have pC2: "\<not> FS_MAX_KEY_SIZE example_hdr < keysize (available_modes example_hdr 1) \<and>
      kmalloc example_env (keysize (available_modes example_hdr 1)) = Some (replicate 64 3) \<and>
      ?fd = ((Zero, snd (fst ?fd)), snd ?fd)"
    by (intro conjI) (rule small km fd)+
  from c [of ?i example_hdr example_env ?ky example_state, THEN conjunct2, THEN conjunct1,
          rule_format, OF pC, THEN conjunct2, rule_format, OF pC2]
  have C: "fst (fscrypt_get_encryption_key example_hdr example_env ?i ?ky example_state) =
             Zero"
    and C': "fk_size (fst (snd (fscrypt_get_encryption_key example_hdr example_env ?i ?ky
             example_state))) = keysize (available_modes example_hdr 1)"
    and C'': "fk_raw (fst (snd (fscrypt_get_encryption_key example_hdr example_env ?i ?ky
             example_state))) =
           take (keysize (available_modes example_hdr 1)) (snd (fst ?fd)) @
             drop (keysize (available_modes example_hdr 1)) (fk_raw ?ky)"
    by simp_all
  have pE: "i_crypt_info ?d = Some example_info \<and>
      get_context example_env = Inr (sizeof_fscrypt_context example_hdr, example_ctx) \<and>
      format example_ctx = FS_ENCRYPTION_CONTEXT_FORMAT_V1 example_hdr \<and>
      flags example_ctx AND NOT (FS_POLICY_FLAGS_VALID example_hdr) = 0 \<and>
      ?seld = (Inr 4, snd ?seld)"
    by (intro conjI) (rule fr sel)+
  have pE2: "\<not> FS_MAX_KEY_SIZE example_hdr < keysize (available_modes example_hdr 4) \<and>
      kmalloc example_env (keysize (available_modes example_hdr 4)) = Some (replicate 32 3) \<and>
      ?fdd = ((Zero, snd (fst ?fdd)), snd ?fdd)"
    by (intro conjI) (rule smalld kmd fdd)+
  from c [of ?d example_hdr example_env ?ky example_state, THEN conjunct2, THEN conjunct1,
          rule_format, OF pE, THEN conjunct2, rule_format, OF pE2]
  have E': "fk_size (fst (snd (fscrypt_get_encryption_key example_hdr example_env ?d ?ky
             example_state))) = keysize (available_modes example_hdr 4)"
    and E'': "fk_raw (fst (snd (fscrypt_get_encryption_key example_hdr example_env ?d ?ky
             example_state))) =
           take (keysize (available_modes example_hdr 4)) (snd (fst ?fdd)) @
             drop (keysize (available_modes example_hdr 4)) (fk_raw ?ky)"
    by simp_all
  from c [of ?i example_hdr example_env ?ky example_state, THEN conjunct2, THEN conjunct2,
          THEN conjunct1, rule_format, OF alloc]
  have D: "\<exists>k. last (trace (snd (snd (fscrypt_get_encryption_key example_hdr example_env
             ?i ?ky example_state)))) = Kfree_buffer (replicate k 0)"
    by blast
  from A B N C C' C'' [unfolded raw] E' E'' [unfolded rawd] D show ?thesis
    unfolding ks ksd by (intro conjI)
qed

subsection \<open>The ESSIV generator\<close>

lemma derive_essiv_salt_value:
  assumes "derive_essiv_salt e ky n salt s = ((Zero, salt'), s')"
  shows "salt' = memcpy salt (sha256 e (take n ky)) SHA256_DIGEST_SIZE"
  using assms
  by (auto simp: derive_essiv_salt_def Let_def
           split: option.splits rc.splits sum.splits prod.splits)

lemma init_essiv_generator_salt:
  assumes "init_essiv_generator e ci raw_key n s = ((r, ci', salt'), s')"
    and "crypto_alloc_cipher e ''aes'' = Zero"
  shows "salt' = replicate SHA256_DIGEST_SIZE 0"
proof -
  obtain r1 salt1 s1 where d: "derive_essiv_salt e raw_key n
      (take SHA256_DIGEST_SIZE (stack_salt e)) (emit (Crypto_alloc_cipher ''aes'') s) =
      ((r1, salt1), s1)"
    by (metis surj_pair)
  have l: "length salt1 \<le> SHA256_DIGEST_SIZE"
    using d
    by (auto simp: derive_essiv_salt_def Let_def memcpy_def
             split: option.splits rc.splits sum.splits prod.splits)
  from assms d have "salt' = memzero salt1 SHA256_DIGEST_SIZE"
    by (auto simp: init_essiv_generator_def Let_def split: rc.splits)
  with l show ?thesis by (simp add: memzero_def)
qed

lemma init_essiv_generator_key:
  assumes "init_essiv_generator e ci raw_key n s = ((Zero, ci', salt'), s')"
    and "length (sha256 e (take n raw_key)) = SHA256_DIGEST_SIZE"
  shows "ci_essiv_tfm ci' =
           Some \<lparr>tfm_alg = ''aes'', tfm_key = Some (sha256 e (take n raw_key))\<rparr> \<and>
         ci' = ci\<lparr>ci_essiv_tfm := ci_essiv_tfm ci'\<rparr>"
proof -
  obtain r1 salt1 s1 where d: "derive_essiv_salt e raw_key n
      (take SHA256_DIGEST_SIZE (stack_salt e)) (emit (Crypto_alloc_cipher ''aes'') s) =
      ((r1, salt1), s1)"
    by (metis surj_pair)
  from assms(1) d have z: "r1 = Zero"
    by (auto simp: init_essiv_generator_def Let_def split: rc.splits)
  from derive_essiv_salt_value [OF d [unfolded z]] assms(2)
  have "take SHA256_DIGEST_SIZE salt1 = sha256 e (take n raw_key)"
    by (simp add: memcpy_def)
  with assms(1) d z show ?thesis
    by (auto simp: init_essiv_generator_def Let_def split: rc.splits)
qed

text \<open>
  Claim C7. Whenever \<^verbatim>\<open>init_essiv_generator\<close> gets past the allocation of its cipher,
  the one return that comes before any digest is computed, the array \<^verbatim>\<open>salt\<close> is all
  zero when the function returns, whatever its status. When it returns 0, the ESSIV
  cipher of the crypto info is an \<^verbatim>\<open>aes\<close> cipher keyed with the SHA-256 digest of the
  \<^verbatim>\<open>keysize\<close> bytes of the raw key. For a mode with \<^verbatim>\<open>needs_essiv\<close>, a successful
  \<^verbatim>\<open>setup_crypto_transform\<close> leaves that cipher in the crypto info, its key the digest of
  the first \<^verbatim>\<open>mode->keysize\<close> bytes of the raw key and 32 bytes long. (SHA-256 yields
  \<^verbatim>\<open>SHA256_DIGEST_SIZE\<close> bytes.)
\<close>

theorem init_essiv_generator_digest:
  "(\<forall>r ci' salt' s'.
      crypto_alloc_cipher e ''aes'' = Zero \<and>
      init_essiv_generator e ci raw_key n s = ((r, ci', salt'), s') \<longrightarrow>
      salt' = replicate SHA256_DIGEST_SIZE 0) \<and>
   (\<forall>ci' salt' s'.
      length (sha256 e (take n raw_key)) = SHA256_DIGEST_SIZE \<and>
      init_essiv_generator e ci raw_key n s = ((Zero, ci', salt'), s') \<longrightarrow>
      ci_essiv_tfm ci' =
        Some \<lparr>tfm_alg = ''aes'', tfm_key = Some (sha256 e (take n raw_key))\<rparr> \<and>
      salt' = replicate SHA256_DIGEST_SIZE 0) \<and>
   (\<forall>ci' s'.
      needs_essiv (available_modes h mode) \<and>
      length (sha256 e (take (keysize (available_modes h mode)) rk)) = SHA256_DIGEST_SIZE \<and>
      setup_crypto_transform h e ci mode rk inode s = ((Zero, ci'), s') \<longrightarrow>
      (\<exists>k. ci_essiv_tfm ci' = Some \<lparr>tfm_alg = ''aes'', tfm_key = Some k\<rparr> \<and>
           k = sha256 e (take (keysize (available_modes h mode)) rk) \<and> length k = 32))"
proof (intro conjI allI impI)
  fix r ci' salt' s'
  assume "crypto_alloc_cipher e ''aes'' = Zero \<and>
      init_essiv_generator e ci raw_key n s = ((r, ci', salt'), s')"
  then show "salt' = replicate SHA256_DIGEST_SIZE 0"
    using init_essiv_generator_salt by blast
next
  fix ci' salt' s'
  assume a: "length (sha256 e (take n raw_key)) = SHA256_DIGEST_SIZE \<and>
      init_essiv_generator e ci raw_key n s = ((Zero, ci', salt'), s')"
  then show "ci_essiv_tfm ci' =
        Some \<lparr>tfm_alg = ''aes'', tfm_key = Some (sha256 e (take n raw_key))\<rparr>"
    using init_essiv_generator_key by blast
  from a have "crypto_alloc_cipher e ''aes'' = Zero"
    by (auto simp: init_essiv_generator_def Let_def split: rc.splits)
  with a show "salt' = replicate SHA256_DIGEST_SIZE 0"
    using init_essiv_generator_salt by blast
next
  fix ci' s'
  let ?m = "available_modes h mode"
  assume a: "needs_essiv ?m \<and>
      length (sha256 e (take (keysize ?m) rk)) = SHA256_DIGEST_SIZE \<and>
      setup_crypto_transform h e ci mode rk inode s = ((Zero, ci'), s')"
  then obtain c0 t0 salt' where
    i: "init_essiv_generator e c0 rk (keysize ?m) t0 = ((Zero, ci', salt'), s')"
    by (auto simp: setup_crypto_transform_def Let_def
             split: if_splits prod.splits sum.splits rc.splits)
  from init_essiv_generator_key [OF i] a
  show "\<exists>k. ci_essiv_tfm ci' = Some \<lparr>tfm_alg = ''aes'', tfm_key = Some k\<rparr> \<and>
           k = sha256 e (take (keysize ?m) rk) \<and> length k = 32"
    by (simp add: SHA256_DIGEST_SIZE_def)
qed


theorem init_essiv_generator_digest_witness:
  "snd (snd (fst (init_essiv_generator example_env example_info (replicate 16 7) 16
      example_state))) = replicate SHA256_DIGEST_SIZE 0 \<and>
   snd (snd (fst (init_essiv_generator
      (example_env\<lparr>crypto_cipher_setkey := (\<lambda>a k. Neg EINVAL)\<rparr>) example_info
      (replicate 16 7) 16 example_state))) = replicate SHA256_DIGEST_SIZE 0 \<and>
   ci_essiv_tfm (fst (snd (fst (init_essiv_generator example_env example_info
      (replicate 16 7) 16 example_state)))) =
     Some \<lparr>tfm_alg = ''aes'',
           tfm_key = Some (sha256 example_env (take 16 (replicate 16 7)))\<rparr> \<and>
   (\<exists>k. ci_essiv_tfm (snd (fst (setup_crypto_transform example_hdr example_env
           (example_info\<lparr>ci_data_mode := 5, ci_filename_mode := 6\<rparr>) 5
           (replicate 16 7) example_inode example_state))) =
          Some \<lparr>tfm_alg = ''aes'', tfm_key = Some k\<rparr> \<and>
        k = sha256 example_env
              (take (keysize (available_modes example_hdr 5)) (replicate 16 7)) \<and>
        length k = 32)"
proof -
  let ?e2 = "example_env\<lparr>crypto_cipher_setkey := (\<lambda>a k. Neg EINVAL)\<rparr>"
  let ?ci = "example_info\<lparr>ci_data_mode := 5, ci_filename_mode := 6\<rparr>"
  let ?g1 = "init_essiv_generator example_env example_info (replicate 16 7) 16 example_state"
  let ?g2 = "init_essiv_generator ?e2 example_info (replicate 16 7) 16 example_state"
  let ?su = "setup_crypto_transform example_hdr example_env ?ci 5 (replicate 16 7)
               example_inode example_state"
  have al: "crypto_alloc_cipher example_env ''aes'' = Zero"
    "crypto_alloc_cipher ?e2 ''aes'' = Zero"
    by code_simp+
  have len: "length (sha256 example_env (take 16 (replicate 16 7))) = SHA256_DIGEST_SIZE"
    "length (sha256 example_env (take (keysize (available_modes example_hdr 5))
               (replicate 16 7))) = SHA256_DIGEST_SIZE"
    by code_simp+
  have ne: "needs_essiv (available_modes example_hdr 5)"
    by code_simp
  have "fst (fst ?g1) = Zero" "fst (fst ?su) = Zero"
    by code_simp+
  then have g1: "?g1 = ((Zero, fst (snd (fst ?g1)), snd (snd (fst ?g1))), snd ?g1)"
    and su: "?su = ((Zero, snd (fst ?su)), snd ?su)"
    by (simp_all add: prod_eq_iff)
  have g2: "?g2 = ((fst (fst ?g2), fst (snd (fst ?g2)), snd (snd (fst ?g2))), snd ?g2)"
    by simp
  note d = init_essiv_generator_digest
  have A: "snd (snd (fst ?g1)) = replicate SHA256_DIGEST_SIZE 0"
    by (rule d [THEN conjunct1, rule_format, OF conjI, OF al(1) g1])
  have B: "snd (snd (fst ?g2)) = replicate SHA256_DIGEST_SIZE 0"
    by (rule d [THEN conjunct1, rule_format, OF conjI, OF al(2) g2])
  have C: "ci_essiv_tfm (fst (snd (fst ?g1))) =
     Some \<lparr>tfm_alg = ''aes'',
           tfm_key = Some (sha256 example_env (take 16 (replicate 16 7)))\<rparr>"
    by (rule d [THEN conjunct2, THEN conjunct1, rule_format, OF conjI, OF len(1) g1,
                THEN conjunct1])
  have D: "\<exists>k. ci_essiv_tfm (snd (fst ?su)) = Some \<lparr>tfm_alg = ''aes'', tfm_key = Some k\<rparr> \<and>
        k = sha256 example_env
              (take (keysize (available_modes example_hdr 5)) (replicate 16 7)) \<and>
        length k = 32"
    by (rule d [THEN conjunct2, THEN conjunct2, rule_format, OF conjI, OF ne conjI,
                OF len(2) su])
  from A B C D show ?thesis
    by (intro conjI)
qed

subsection \<open>The table of master keys\<close>

lemma emit_fields [simp]:
  "fscrypt_master_keys (emit ev s) = fscrypt_master_keys s"
  "mk_objs (emit ev s) = mk_objs s"
  "essiv_hash_tfm (emit ev s) = essiv_hash_tfm s"
  "logged_impl_name (emit ev s) = logged_impl_name s"
  "trace (emit ev s) = trace s @ [ev]"
  by (simp_all add: emit_def)

text \<open>
  Claim C6. \<^verbatim>\<open>put_master_key\<close> on a live entry that holds at least one reference
  decrements the count under the lock. If the count was 1, the entry is unlinked from
  the table, then the lock is dropped, then the cipher handle (if there is one) is freed
  and the object is given back with all its bytes zero, its raw key among them; the
  entry is gone from the table and from the live objects. If the count was larger, the
  lock is dropped and nothing else happens: the table and the other fields of the entry
  are as before.
\<close>

theorem put_master_key_release:
  assumes "mk_objs s p = Some m" and "0 < mk_refcount m"
  shows "(mk_refcount m = 1 \<longrightarrow>
            put_master_key p s =
              s\<lparr>fscrypt_master_keys := (\<lambda>b. removeAll p (fscrypt_master_keys s b)),
                mk_objs := (mk_objs s)(p := None),
                trace := trace s @ [Spin_lock, Refcount_dec p, Hash_del p, Spin_unlock] @
                  (case mk_ctfm m of None \<Rightarrow> [] | Some t \<Rightarrow> [Crypto_free_skcipher]) @
                  [Kfree_master_key p
                     \<lparr>mk_refcount = 0, mk_mode = None, mk_ctfm = None,
                      mk_descriptor = replicate (length (mk_descriptor m)) 0,
                      mk_raw = replicate (length (mk_raw m)) 0\<rparr>]\<rparr>) \<and>
         (1 < mk_refcount m \<longrightarrow>
            put_master_key p s =
              s\<lparr>mk_objs := (mk_objs s)(p \<mapsto> m\<lparr>mk_refcount := mk_refcount m - 1\<rparr>),
                trace := trace s @ [Spin_lock, Refcount_dec p, Spin_unlock]\<rparr>)"
  using assms
  by (auto simp: put_master_key_def refcount_dec_and_lock_def hash_del_def
        free_master_key_def kzfree_master_key_def zeroed_master_key_def memzero_def
        emit_def Let_def split: option.splits)

theorem put_master_key_release_witness:
  "put_master_key 7 example_table_state =
     example_table_state
       \<lparr>mk_objs := (mk_objs example_table_state)
            (7 \<mapsto> example_master_key\<lparr>mk_refcount := mk_refcount example_master_key - 1\<rparr>),
        trace := trace example_table_state @ [Spin_lock, Refcount_dec 7, Spin_unlock]\<rparr> \<and>
   put_master_key 7 (put_master_key 7 example_table_state) =
     example_table_state
       \<lparr>fscrypt_master_keys := (\<lambda>b. []), mk_objs := (\<lambda>p. None),
        trace := [Spin_lock, Refcount_dec 7, Spin_unlock,
                  Spin_lock, Refcount_dec 7, Hash_del 7, Spin_unlock, Crypto_free_skcipher,
                  Kfree_master_key 7
                    \<lparr>mk_refcount = 0, mk_mode = None, mk_ctfm = None,
                     mk_descriptor = replicate 8 0, mk_raw = replicate 64 0\<rparr>]\<rparr>"
proof -
  let ?s1 = "example_table_state
       \<lparr>mk_objs := (mk_objs example_table_state)
            (7 \<mapsto> example_master_key\<lparr>mk_refcount := mk_refcount example_master_key - 1\<rparr>),
        trace := trace example_table_state @ [Spin_lock, Refcount_dec 7, Spin_unlock]\<rparr>"
  let ?m1 = "example_master_key\<lparr>mk_refcount := mk_refcount example_master_key - 1\<rparr>"
  have a: "mk_objs example_table_state 7 = Some example_master_key"
    "0 < mk_refcount example_master_key" "1 < mk_refcount example_master_key"
    by (simp_all add: example_table_state_def example_master_key_def)
  have b: "mk_objs ?s1 7 = Some ?m1" "0 < mk_refcount ?m1" "mk_refcount ?m1 = 1"
    by (simp_all add: example_master_key_def)
  from put_master_key_release [OF a(1,2)] a(3)
  have 1: "put_master_key 7 example_table_state = ?s1"
    by blast
  from put_master_key_release [OF b(1,2)] b(3)
  have 2: "put_master_key 7 ?s1 =
     ?s1\<lparr>fscrypt_master_keys := (\<lambda>b. removeAll 7 (fscrypt_master_keys ?s1 b)),
         mk_objs := (mk_objs ?s1)(7 := None),
         trace := trace ?s1 @ [Spin_lock, Refcount_dec 7, Hash_del 7, Spin_unlock] @
           (case mk_ctfm ?m1 of None \<Rightarrow> [] | Some t \<Rightarrow> [Crypto_free_skcipher]) @
           [Kfree_master_key 7
              \<lparr>mk_refcount = 0, mk_mode = None, mk_ctfm = None,
               mk_descriptor = replicate (length (mk_descriptor ?m1)) 0,
               mk_raw = replicate (length (mk_raw ?m1)) 0\<rparr>]\<rparr>"
    by blast
  show ?thesis
    unfolding 1 2
    by (simp add: example_table_state_def example_master_key_def fun_eq_iff)
qed

subsection \<open>Lookup and insertion in the table of master keys\<close>

text \<open>What the loop over a chain returns: the first entry that matches, if any.\<close>

lemma scan_Some:
  "hash_for_each_possible h objs ci mode rk ps = Some p \<Longrightarrow>
   p \<in> set ps \<and> (\<exists>m. objs p = Some m \<and> mk_matches h (ci_master_key_descriptor ci) mode rk m)"
  by (induction ps) (auto simp: mk_matches_def split: option.splits if_splits)

lemma scan_None:
  "(hash_for_each_possible h objs ci mode rk ps = None) =
   (\<forall>p \<in> set ps. \<forall>m. objs p = Some m \<longrightarrow>
      \<not> mk_matches h (ci_master_key_descriptor ci) mode rk m)"
  by (induction ps) (auto simp: mk_matches_def split: option.splits)

lemma scan_other_object:
  "c \<notin> set ps \<Longrightarrow>
   hash_for_each_possible h (objs(c := x)) ci mode rk ps =
   hash_for_each_possible h objs ci mode rk ps"
  by (induction ps) (auto split: option.splits)

lemma scan_refcount:
  "objs p = Some m \<Longrightarrow>
   hash_for_each_possible h (objs(p \<mapsto> m\<lparr>mk_refcount := n\<rparr>)) ci mode rk ps =
   hash_for_each_possible h objs ci mode rk ps"
  by (induction ps) (auto split: option.splits)

lemma scan_same_triple:
  "take (FS_KEY_DESCRIPTOR_SIZE h) (ci_master_key_descriptor ci) =
     take (FS_KEY_DESCRIPTOR_SIZE h) (ci_master_key_descriptor ci') \<Longrightarrow>
   take (keysize (available_modes h mode)) rk = take (keysize (available_modes h mode)) rk' \<Longrightarrow>
   hash_for_each_possible h objs ci mode rk ps =
   hash_for_each_possible h objs ci' mode rk' ps"
  by (induction ps) (auto split: option.splits)

lemma scan_head:
  "objs c = Some m \<Longrightarrow> mk_matches h (ci_master_key_descriptor ci) mode rk m \<Longrightarrow>
   hash_for_each_possible h objs ci mode rk (c # ps) = Some c"
  by (simp add: mk_matches_def)

text \<open>An entry that matches a descriptor is in the bucket of that descriptor.\<close>

lemma matching_bucket:
  assumes "table_ok h s" and "sizeof_long h \<le> FS_KEY_DESCRIPTOR_SIZE h"
    and "p \<in> set (fscrypt_master_keys s b)" and "mk_objs s p = Some m"
    and "mk_matches h d mode rk m"
  shows "b = hash_min h (take (sizeof_long h) d)"
proof -
  from assms(1,3,4) have b: "hash_min h (take (sizeof_long h) (mk_descriptor m)) = b"
    unfolding table_ok_def by fastforce
  from assms(5) have "take (FS_KEY_DESCRIPTOR_SIZE h) d =
      take (FS_KEY_DESCRIPTOR_SIZE h) (mk_descriptor m)"
    by (simp add: mk_matches_def)
  then have "take (sizeof_long h) (take (FS_KEY_DESCRIPTOR_SIZE h) d) =
      take (sizeof_long h) (take (FS_KEY_DESCRIPTOR_SIZE h) (mk_descriptor m))"
    by simp
  with assms(2) have "take (sizeof_long h) d = take (sizeof_long h) (mk_descriptor m)"
    by (simp add: min_def)
  with b show ?thesis by simp
qed

lemma find_or_insert_found:
  assumes "hash_for_each_possible h (mk_objs s) ci mode rk
             (fscrypt_master_keys s
                (hash_min h (take (sizeof_long h) (ci_master_key_descriptor ci)))) = Some p"
    and "mk_objs s p = Some m"
    and "to_insert \<noteq> Some p"
  shows "fst (find_or_insert_master_key h to_insert rk mode ci s) = Some p \<and>
         fscrypt_master_keys (snd (find_or_insert_master_key h to_insert rk mode ci s)) =
           fscrypt_master_keys s \<and>
         mk_objs (snd (find_or_insert_master_key h to_insert rk mode ci s)) =
           (case to_insert of
              None \<Rightarrow> (mk_objs s)(p \<mapsto> m\<lparr>mk_refcount := Suc (mk_refcount m)\<rparr>)
            | Some c \<Rightarrow> ((mk_objs s)(p \<mapsto> m\<lparr>mk_refcount := Suc (mk_refcount m)\<rparr>))(c := None))"
  using assms
  by (auto simp: find_or_insert_master_key_def Let_def refcount_inc_def free_master_key_def
        kzfree_master_key_def fun_eq_iff split: option.splits)

lemma find_or_insert_not_found:
  assumes "hash_for_each_possible h (mk_objs s) ci mode rk
             (fscrypt_master_keys s
                (hash_min h (take (sizeof_long h) (ci_master_key_descriptor ci)))) = None"
  shows "fst (find_or_insert_master_key h to_insert rk mode ci s) = to_insert \<and>
         mk_objs (snd (find_or_insert_master_key h to_insert rk mode ci s)) = mk_objs s \<and>
         fscrypt_master_keys (snd (find_or_insert_master_key h to_insert rk mode ci s)) =
           (case to_insert of
              None \<Rightarrow> fscrypt_master_keys s
            | Some c \<Rightarrow>
                (fscrypt_master_keys s)
                  (hash_min h (take (sizeof_long h) (ci_master_key_descriptor ci)) :=
                     c # fscrypt_master_keys s
                           (hash_min h (take (sizeof_long h) (ci_master_key_descriptor ci)))))"
  using assms
  by (auto simp: find_or_insert_master_key_def Let_def hash_add_def split: option.splits)


text \<open>\<^verbatim>\<open>allocate_skcipher_for_mode\<close> leaves the table and its objects alone.\<close>

lemma allocate_skcipher_for_mode_fields [simp]:
  "fscrypt_master_keys (snd (allocate_skcipher_for_mode h e mode rk inode s)) =
     fscrypt_master_keys s"
  "mk_objs (snd (allocate_skcipher_for_mode h e mode rk inode s)) = mk_objs s"
  by (simp_all add: allocate_skcipher_for_mode_def Let_def split: rc.splits)

lemma allocate_skcipher_for_mode_value:
  "fst (allocate_skcipher_for_mode h e mode rk inode s) = Inr t \<Longrightarrow>
   t = \<lparr>tfm_alg = cipher_str (available_modes h mode),
        tfm_key = Some (take (keysize (available_modes h mode)) rk)\<rparr>"
  by (auto simp: allocate_skcipher_for_mode_def Let_def split: rc.splits)

text \<open>The entry \<^verbatim>\<open>fscrypt_get_master_key\<close> builds for a caller's triple.\<close>

lemma new_entry_matches:
  assumes "keysize (available_modes h mode) \<le> length rk"
  shows "mk_matches h d mode rk
           ((kzalloc_mk h)\<lparr>mk_refcount := 1, mk_mode := Some mode, mk_ctfm := Some t,
              mk_descriptor := memcpy (mk_descriptor (kzalloc_mk h)) d
                                 (FS_KEY_DESCRIPTOR_SIZE h),
              mk_raw := memcpy (mk_raw (kzalloc_mk h)) rk
                          (keysize (available_modes h mode))\<rparr>)"
  using assms by (simp add: mk_matches_def memcpy_def kzalloc_mk_def)

lemma fscrypt_get_master_key_found:
  assumes "fst (find_or_insert_master_key h None rk mode ci s) = Some q"
  shows "fscrypt_get_master_key h e ci mode rk inode s =
           (Inr (Some q), snd (find_or_insert_master_key h None rk mode ci s))"
  using assms
  by (cases "find_or_insert_master_key h None rk mode ci s")
     (simp add: fscrypt_get_master_key_def)

lemma fscrypt_get_master_key_created:
  assumes "find_or_insert_master_key h None rk mode ci s = (None, s1)"
    and "kzalloc_master_key e = Some c"
    and "allocate_skcipher_for_mode h e mode rk inode
           ((emit Kzalloc_master_key s1)\<lparr>mk_objs := (mk_objs s1)
              (c \<mapsto> (kzalloc_mk h)\<lparr>mk_refcount := 1, mk_mode := Some mode\<rparr>)\<rparr>) = (Inr t, s2)"
  shows "fscrypt_get_master_key h e ci mode rk inode s =
           (Inr (fst (find_or_insert_master_key h (Some c) rk mode ci
              (s2\<lparr>mk_objs := (mk_objs s2)
                 (c \<mapsto> (kzalloc_mk h)\<lparr>mk_refcount := 1, mk_mode := Some mode,
                     mk_ctfm := Some t,
                     mk_descriptor := memcpy (mk_descriptor (kzalloc_mk h))
                        (ci_master_key_descriptor ci) (FS_KEY_DESCRIPTOR_SIZE h),
                     mk_raw := memcpy (mk_raw (kzalloc_mk h)) rk
                        (keysize (available_modes h mode))\<rparr>)\<rparr>))),
            snd (find_or_insert_master_key h (Some c) rk mode ci
              (s2\<lparr>mk_objs := (mk_objs s2)
                 (c \<mapsto> (kzalloc_mk h)\<lparr>mk_refcount := 1, mk_mode := Some mode,
                     mk_ctfm := Some t,
                     mk_descriptor := memcpy (mk_descriptor (kzalloc_mk h))
                        (ci_master_key_descriptor ci) (FS_KEY_DESCRIPTOR_SIZE h),
                     mk_raw := memcpy (mk_raw (kzalloc_mk h)) rk
                        (keysize (available_modes h mode))\<rparr>)\<rparr>)))"
  using assms
  by (simp add: fscrypt_get_master_key_def Let_def split_beta)

lemma fscrypt_get_master_key_Some_cases:
  assumes "fscrypt_get_master_key h e ci mode rk inode s = (Inr (Some p), s')"
  shows "fst (find_or_insert_master_key h None rk mode ci s) = Some p \<or>
         (fst (find_or_insert_master_key h None rk mode ci s) = None \<and>
          (\<exists>c t. kzalloc_master_key e = Some c \<and>
             fst (allocate_skcipher_for_mode h e mode rk inode
               ((emit Kzalloc_master_key (snd (find_or_insert_master_key h None rk mode ci s)))
                \<lparr>mk_objs := (mk_objs (snd (find_or_insert_master_key h None rk mode ci s)))
                  (c \<mapsto> (kzalloc_mk h)\<lparr>mk_refcount := 1, mk_mode := Some mode\<rparr>)\<rparr>)) = Inr t))"
  using assms
  by (auto simp: fscrypt_get_master_key_def Let_def
           split: prod.splits option.splits sum.splits)


lemma table_okD:
  "table_ok h s \<Longrightarrow> p \<in> set (fscrypt_master_keys s b) \<Longrightarrow>
   \<exists>m. mk_objs s p = Some m \<and> hash_min h (take (sizeof_long h) (mk_descriptor m)) = b"
  unfolding table_ok_def by blast

lemma fst_find_or_insert:
  "fst (find_or_insert_master_key h to_insert rk mode ci s) =
     (case first_match h s ci mode rk of Some q \<Rightarrow> Some q | None \<Rightarrow> to_insert)"
  by (simp add: find_or_insert_master_key_def first_match_def Let_def split: option.splits)

lemma new_entry_bucket:
  assumes "sizeof_long h \<le> FS_KEY_DESCRIPTOR_SIZE h"
  shows "take (sizeof_long h)
           (memcpy (mk_descriptor (kzalloc_mk h)) d (FS_KEY_DESCRIPTOR_SIZE h)) =
         take (sizeof_long h) d"
  using assms by (simp add: memcpy_def kzalloc_mk_def min_def)

text \<open>After a successful \<^verbatim>\<open>fscrypt_get_master_key\<close> the invariant still holds and the
  entry returned is the one a lookup for the same triple stops at; it is the entry the
  lookup found before the call, or else the object just allocated.\<close>

lemma fscrypt_get_master_key_post:
  assumes ok: "table_ok h s"
    and bb: "sizeof_long h \<le> FS_KEY_DESCRIPTOR_SIZE h"
    and fresh: "\<forall>c. kzalloc_master_key e = Some c \<longrightarrow> mk_objs s c = None"
    and len: "keysize (available_modes h mode) \<le> length rk"
    and res: "fscrypt_get_master_key h e ci mode rk inode s = (Inr (Some p), s')"
  shows "table_ok h s' \<and> first_match h s' ci mode rk = Some p \<and>
         (case first_match h s ci mode rk of
            Some q \<Rightarrow> q = p
          | None \<Rightarrow> kzalloc_master_key e = Some p)"
proof -
  let ?b = "hash_min h (take (sizeof_long h) (ci_master_key_descriptor ci))"
  let ?f0 = "find_or_insert_master_key h None rk mode ci s"
  from fscrypt_get_master_key_Some_cases [OF res]
  show ?thesis
  proof (elim disjE conjE exE)
    assume f: "fst ?f0 = Some p"
    then have fm: "first_match h s ci mode rk = Some p"
      by (simp add: fst_find_or_insert split: option.splits)
    then obtain m where m: "mk_objs s p = Some m"
      using scan_Some [of h "mk_objs s" ci mode rk _ p] by (auto simp: first_match_def)
    from fscrypt_get_master_key_found [OF f, of e inode] res
    have s': "s' = snd ?f0" by simp
    from find_or_insert_found [OF fm [unfolded first_match_def] m, of None]
    have t: "fscrypt_master_keys s' = fscrypt_master_keys s"
      and o: "mk_objs s' = (mk_objs s)(p \<mapsto> m\<lparr>mk_refcount := Suc (mk_refcount m)\<rparr>)"
      by (simp_all add: s')
    have 1: "table_ok h s'"
      unfolding table_ok_def t o using table_okD [OF ok] m by fastforce
    have 2: "first_match h s' ci mode rk = Some p"
      unfolding first_match_def t o using fm m
      by (simp add: scan_refcount first_match_def)
    from 1 2 fm show ?thesis by simp
  next
    fix c t
    assume f: "fst ?f0 = None"
      and k: "kzalloc_master_key e = Some c"
      and a: "fst (allocate_skcipher_for_mode h e mode rk inode
               ((emit Kzalloc_master_key (snd ?f0))
                \<lparr>mk_objs := (mk_objs (snd ?f0))
                  (c \<mapsto> (kzalloc_mk h)\<lparr>mk_refcount := 1, mk_mode := Some mode\<rparr>)\<rparr>)) = Inr t"
    define s1 where "s1 = snd ?f0"
    define sA where "sA = (emit Kzalloc_master_key s1)
                \<lparr>mk_objs := (mk_objs s1)
                  (c \<mapsto> (kzalloc_mk h)\<lparr>mk_refcount := 1, mk_mode := Some mode\<rparr>)\<rparr>"
    define s2 where "s2 = snd (allocate_skcipher_for_mode h e mode rk inode sA)"
    define mk where "mk = (kzalloc_mk h)\<lparr>mk_refcount := 1, mk_mode := Some mode,
                     mk_ctfm := Some t,
                     mk_descriptor := memcpy (mk_descriptor (kzalloc_mk h))
                        (ci_master_key_descriptor ci) (FS_KEY_DESCRIPTOR_SIZE h),
                     mk_raw := memcpy (mk_raw (kzalloc_mk h)) rk
                        (keysize (available_modes h mode))\<rparr>"
    define s3 where "s3 = s2\<lparr>mk_objs := (mk_objs s2)(c \<mapsto> mk)\<rparr>"
    define f1 where "f1 = find_or_insert_master_key h (Some c) rk mode ci s3"
    from f have fm: "first_match h s ci mode rk = None"
      by (simp add: fst_find_or_insert split: option.splits)
    from find_or_insert_not_found [OF fm [unfolded first_match_def], of None]
    have t0: "fscrypt_master_keys s1 = fscrypt_master_keys s"
      and o0: "mk_objs s1 = mk_objs s"
      by (simp_all add: s1_def)
    have t3: "fscrypt_master_keys s3 = fscrypt_master_keys s"
      and o3: "mk_objs s3 = (mk_objs s)(c \<mapsto> mk)"
      by (simp_all add: s3_def s2_def sA_def t0 o0)
    from fresh k have cf: "mk_objs s c = None" by simp
    have cn: "c \<notin> set (fscrypt_master_keys s b)" for b
      using table_okD [OF ok, of c b] cf by auto
    have "hash_for_each_possible h (mk_objs s3) ci mode rk (fscrypt_master_keys s3 ?b) = None"
      unfolding t3 o3 using fm cn
      by (simp add: scan_other_object first_match_def)
    from find_or_insert_not_found [OF this, of "Some c"]
    have r1: "fst f1 = Some c"
      and o1: "mk_objs (snd f1) = (mk_objs s)(c \<mapsto> mk)"
      and t1: "fscrypt_master_keys (snd f1) =
                 (fscrypt_master_keys s)(?b := c # fscrypt_master_keys s ?b)"
      by (simp_all add: t3 o3 f1_def)
    have f0: "?f0 = (None, s1)"
      using f by (simp add: prod_eq_iff s1_def)
    have al: "allocate_skcipher_for_mode h e mode rk inode sA = (Inr t, s2)"
      using a by (simp add: prod_eq_iff s2_def sA_def s1_def)
    from fscrypt_get_master_key_created [OF f0 k al [unfolded sA_def]] res
    have "(Inr (Some p), s') = (Inr (fst f1), snd f1)"
      by (simp add: f1_def s3_def mk_def)
    with r1 have p: "p = c" and s': "s' = snd f1"
      by simp_all
    have mm: "mk_matches h (ci_master_key_descriptor ci) mode rk mk"
      unfolding mk_def by (rule new_entry_matches [OF len])
    have 2: "first_match h s' ci mode rk = Some p"
      unfolding first_match_def s' p o1 t1 using mm
      by (simp add: mk_matches_def)
    have db: "take (sizeof_long h) (mk_descriptor mk) =
                take (sizeof_long h) (ci_master_key_descriptor ci)"
      unfolding mk_def using new_entry_bucket [OF bb] by simp
    have 1: "table_ok h s'"
      unfolding table_ok_def s' o1 t1
      using table_okD [OF ok] cn db
      by (fastforce split: if_splits)
    from 1 2 fm k p show ?thesis by simp
  qed
qed


lemma first_match_same_triple:
  assumes "sizeof_long h \<le> FS_KEY_DESCRIPTOR_SIZE h"
    and "take (FS_KEY_DESCRIPTOR_SIZE h) (ci_master_key_descriptor ci) =
         take (FS_KEY_DESCRIPTOR_SIZE h) (ci_master_key_descriptor ci')"
    and "take (keysize (available_modes h mode)) rk =
         take (keysize (available_modes h mode)) rk'"
  shows "first_match h s ci mode rk = first_match h s ci' mode rk'"
proof -
  from assms(2) have "take (sizeof_long h)
        (take (FS_KEY_DESCRIPTOR_SIZE h) (ci_master_key_descriptor ci)) =
      take (sizeof_long h) (take (FS_KEY_DESCRIPTOR_SIZE h) (ci_master_key_descriptor ci'))"
    by simp
  with assms(1) have "take (sizeof_long h) (ci_master_key_descriptor ci) =
      take (sizeof_long h) (ci_master_key_descriptor ci')"
    by (simp add: min_def)
  then show ?thesis
    unfolding first_match_def using scan_same_triple [OF assms(2,3)] by simp
qed

lemma first_match_Some:
  "first_match h s ci mode rk = Some p \<Longrightarrow>
   in_table s p \<and> (\<exists>m. mk_objs s p = Some m \<and>
     mk_matches h (ci_master_key_descriptor ci) mode rk m)"
  unfolding first_match_def in_table_def using scan_Some by blast

lemma first_match_exists:
  assumes "table_ok h s" and "sizeof_long h \<le> FS_KEY_DESCRIPTOR_SIZE h"
    and "in_table s p" and "mk_objs s p = Some m"
    and "mk_matches h (ci_master_key_descriptor ci) mode rk m"
  shows "\<exists>q. first_match h s ci mode rk = Some q"
proof -
  from assms(3) obtain b where b: "p \<in> set (fscrypt_master_keys s b)"
    by (auto simp: in_table_def)
  from matching_bucket [OF assms(1,2) b assms(4,5)]
  have "p \<in> set (fscrypt_master_keys s
      (hash_min h (take (sizeof_long h) (ci_master_key_descriptor ci))))"
    using b by simp
  with assms(4,5) have "first_match h s ci mode rk \<noteq> None"
    unfolding first_match_def scan_None by blast
  then show ?thesis by auto
qed

lemma first_match_None:
  assumes "\<not> (\<exists>p m. in_table s p \<and> mk_objs s p = Some m \<and>
              mk_matches h (ci_master_key_descriptor ci) mode rk m)"
  shows "first_match h s ci mode rk = None"
  using assms unfolding first_match_def scan_None in_table_def by blast

lemma in_table_same:
  "fscrypt_master_keys s' = fscrypt_master_keys s \<Longrightarrow> in_table s' q = in_table s q"
  by (simp add: in_table_def)

lemma in_table_hash_add:
  assumes "fscrypt_master_keys s' =
             (fscrypt_master_keys s)(b := c # fscrypt_master_keys s b)"
  shows "in_table s' q = (q = c \<or> in_table s q)"
proof -
  have e: "fscrypt_master_keys s' b' =
             (if b' = b then c # fscrypt_master_keys s b else fscrypt_master_keys s b')" for b'
    unfolding assms by simp
  show ?thesis
  proof
    assume "in_table s' q"
    then obtain b' where "q \<in> set (fscrypt_master_keys s' b')"
      unfolding in_table_def by blast
    then have "q = c \<or> q \<in> set (fscrypt_master_keys s b) \<or>
               q \<in> set (fscrypt_master_keys s b')"
      unfolding e by (simp split: if_splits)
    then show "q = c \<or> in_table s q"
      unfolding in_table_def by blast
  next
    assume "q = c \<or> in_table s q"
    then show "in_table s' q"
    proof
      assume "q = c"
      then have "q \<in> set (fscrypt_master_keys s' b)"
        unfolding e by simp
      then show ?thesis unfolding in_table_def by blast
    next
      assume "in_table s q"
      then obtain b' where "q \<in> set (fscrypt_master_keys s b')"
        unfolding in_table_def by blast
      then have "q \<in> set (fscrypt_master_keys s' b')"
        unfolding e by auto
      then show ?thesis unfolding in_table_def by blast
    qed
  qed
qed

lemma sharing:
  assumes ok: "table_ok h s"
    and bb: "sizeof_long h \<le> FS_KEY_DESCRIPTOR_SIZE h"
    and f1: "\<forall>c. kzalloc_master_key e1 = Some c \<longrightarrow> mk_objs s c = None"
    and f2: "\<forall>c. kzalloc_master_key e2 = Some c \<longrightarrow> mk_objs s1 c = None"
    and l1: "keysize (available_modes h m1) \<le> length rk1"
    and l2: "keysize (available_modes h m2) \<le> length rk2"
    and g1: "fscrypt_get_master_key h e1 ci1 m1 rk1 i1 s = (Inr (Some p1), s1)"
    and g2: "fscrypt_get_master_key h e2 ci2 m2 rk2 i2 s1 = (Inr (Some p2), s2)"
  shows "(p1 = p2) =
         (take (FS_KEY_DESCRIPTOR_SIZE h) (ci_master_key_descriptor ci1) =
            take (FS_KEY_DESCRIPTOR_SIZE h) (ci_master_key_descriptor ci2) \<and>
          m1 = m2 \<and>
          take (keysize (available_modes h m1)) rk1 =
            take (keysize (available_modes h m1)) rk2)"
proof -
  from fscrypt_get_master_key_post [OF ok bb f1 l1 g1]
  have ok1: "table_ok h s1" and fm1: "first_match h s1 ci1 m1 rk1 = Some p1"
    by simp_all
  from first_match_Some [OF fm1] obtain m where
    m: "mk_objs s1 p1 = Some m" "mk_matches h (ci_master_key_descriptor ci1) m1 rk1 m"
    by blast
  from fscrypt_get_master_key_post [OF ok1 bb f2 l2 g2]
  have c2: "case first_match h s1 ci2 m2 rk2 of
              Some q \<Rightarrow> q = p2 | None \<Rightarrow> kzalloc_master_key e2 = Some p2"
    by simp
  show ?thesis
  proof
    assume e: "p1 = p2"
    show "take (FS_KEY_DESCRIPTOR_SIZE h) (ci_master_key_descriptor ci1) =
            take (FS_KEY_DESCRIPTOR_SIZE h) (ci_master_key_descriptor ci2) \<and>
          m1 = m2 \<and>
          take (keysize (available_modes h m1)) rk1 =
            take (keysize (available_modes h m1)) rk2"
    proof (cases "first_match h s1 ci2 m2 rk2")
      case None
      with c2 f2 have "mk_objs s1 p2 = None" by simp
      with m(1) e show ?thesis by simp
    next
      case (Some q)
      with c2 e have "first_match h s1 ci2 m2 rk2 = Some p1" by simp
      from first_match_Some [OF this] m(1)
      have "mk_matches h (ci_master_key_descriptor ci2) m2 rk2 m" by auto
      with m(2) show ?thesis by (auto simp: mk_matches_def)
    qed
  next
    assume t: "take (FS_KEY_DESCRIPTOR_SIZE h) (ci_master_key_descriptor ci1) =
            take (FS_KEY_DESCRIPTOR_SIZE h) (ci_master_key_descriptor ci2) \<and>
          m1 = m2 \<and>
          take (keysize (available_modes h m1)) rk1 =
            take (keysize (available_modes h m1)) rk2"
    then have d: "take (FS_KEY_DESCRIPTOR_SIZE h) (ci_master_key_descriptor ci1) =
            take (FS_KEY_DESCRIPTOR_SIZE h) (ci_master_key_descriptor ci2)"
      and mo: "m2 = m1"
      and r: "take (keysize (available_modes h m1)) rk1 =
            take (keysize (available_modes h m1)) rk2"
      by blast+
    have "first_match h s1 ci1 m1 rk1 = first_match h s1 ci2 m2 rk2"
      unfolding mo by (rule first_match_same_triple [OF bb d r])
    with fm1 c2 show "p1 = p2" by simp
  qed
qed

text \<open>
  Claim C1. In a table that satisfies its invariant (with
  \<^verbatim>\<open>sizeof(hash_key) <= FS_KEY_DESCRIPTOR_SIZE\<close>, the \<^verbatim>\<open>BUILD_BUG_ON\<close> of the code):
  if the table holds an entry whose descriptor, mode and raw key (over
  \<^verbatim>\<open>mode->keysize\<close> bytes) equal the caller's, \<^verbatim>\<open>find_or_insert_master_key\<close>
  returns such an entry of the table, with its reference count incremented, frees the
  candidate the caller passed, if any, and leaves the table as it was. If no entry
  equals the caller's in all three, be it only in the raw key, it returns the candidate,
  which is then in the table, and every entry is kept. And two successive successful
  calls of \<^verbatim>\<open>fscrypt_get_master_key\<close> (the allocator handing out memory that is not in
  use, the raw keys \<^verbatim>\<open>mode->keysize\<close> bytes long) return the same entry, hence the same
  cipher handle, if and only if their descriptors, modes and raw keys are equal.
\<close>

theorem find_or_insert_master_key_shares:
  assumes ok: "table_ok h s"
    and bb: "sizeof_long h \<le> FS_KEY_DESCRIPTOR_SIZE h"
  shows
   "((\<forall>c. to_insert = Some c \<longrightarrow> \<not> in_table s c) \<and>
     (\<exists>p m. in_table s p \<and> mk_objs s p = Some m \<and>
        mk_matches h (ci_master_key_descriptor ci) mode rk m) \<longrightarrow>
     (\<exists>p m. fst (find_or_insert_master_key h to_insert rk mode ci s) = Some p \<and>
        in_table s p \<and> mk_objs s p = Some m \<and>
        mk_matches h (ci_master_key_descriptor ci) mode rk m \<and>
        mk_objs (snd (find_or_insert_master_key h to_insert rk mode ci s)) p =
          Some (m\<lparr>mk_refcount := Suc (mk_refcount m)\<rparr>) \<and>
        (\<forall>c. to_insert = Some c \<longrightarrow>
           mk_objs (snd (find_or_insert_master_key h to_insert rk mode ci s)) c = None) \<and>
        fscrypt_master_keys (snd (find_or_insert_master_key h to_insert rk mode ci s)) =
          fscrypt_master_keys s)) \<and>
    (\<not> (\<exists>p m. in_table s p \<and> mk_objs s p = Some m \<and>
        mk_matches h (ci_master_key_descriptor ci) mode rk m) \<longrightarrow>
     fst (find_or_insert_master_key h to_insert rk mode ci s) = to_insert \<and>
     mk_objs (snd (find_or_insert_master_key h to_insert rk mode ci s)) = mk_objs s \<and>
     (\<forall>c. to_insert = Some c \<longrightarrow>
        in_table (snd (find_or_insert_master_key h to_insert rk mode ci s)) c) \<and>
     (\<forall>q. in_table s q \<longrightarrow>
        in_table (snd (find_or_insert_master_key h to_insert rk mode ci s)) q)) \<and>
    (\<forall>e1 ci1 m1 rk1 i1 p1 s1 e2 ci2 m2 rk2 i2 p2 s2.
       (\<forall>c. kzalloc_master_key e1 = Some c \<longrightarrow> mk_objs s c = None) \<and>
       (\<forall>c. kzalloc_master_key e2 = Some c \<longrightarrow> mk_objs s1 c = None) \<and>
       keysize (available_modes h m1) \<le> length rk1 \<and>
       keysize (available_modes h m2) \<le> length rk2 \<and>
       fscrypt_get_master_key h e1 ci1 m1 rk1 i1 s = (Inr (Some p1), s1) \<and>
       fscrypt_get_master_key h e2 ci2 m2 rk2 i2 s1 = (Inr (Some p2), s2) \<longrightarrow>
       (p1 = p2) =
         (take (FS_KEY_DESCRIPTOR_SIZE h) (ci_master_key_descriptor ci1) =
            take (FS_KEY_DESCRIPTOR_SIZE h) (ci_master_key_descriptor ci2) \<and>
          m1 = m2 \<and>
          take (keysize (available_modes h m1)) rk1 =
            take (keysize (available_modes h m1)) rk2))"
proof (intro conjI)
  let ?R = "find_or_insert_master_key h to_insert rk mode ci s"
  show "(\<forall>c. to_insert = Some c \<longrightarrow> \<not> in_table s c) \<and>
     (\<exists>p m. in_table s p \<and> mk_objs s p = Some m \<and>
        mk_matches h (ci_master_key_descriptor ci) mode rk m) \<longrightarrow>
     (\<exists>p m. fst ?R = Some p \<and>
        in_table s p \<and> mk_objs s p = Some m \<and>
        mk_matches h (ci_master_key_descriptor ci) mode rk m \<and>
        mk_objs (snd ?R) p = Some (m\<lparr>mk_refcount := Suc (mk_refcount m)\<rparr>) \<and>
        (\<forall>c. to_insert = Some c \<longrightarrow> mk_objs (snd ?R) c = None) \<and>
        fscrypt_master_keys (snd ?R) = fscrypt_master_keys s)"
  proof (intro impI, elim conjE exE)
    fix p0 m0
    assume cand: "\<forall>c. to_insert = Some c \<longrightarrow> \<not> in_table s c"
      and ex: "in_table s p0" "mk_objs s p0 = Some m0"
      "mk_matches h (ci_master_key_descriptor ci) mode rk m0"
    from first_match_exists [OF ok bb ex]
    obtain p where fm: "first_match h s ci mode rk = Some p" by blast
    from first_match_Some [OF fm] obtain m where
      m: "in_table s p" "mk_objs s p = Some m"
         "mk_matches h (ci_master_key_descriptor ci) mode rk m"
      by blast
    from cand m(1) have ne: "to_insert \<noteq> Some p" by auto
    from find_or_insert_found [OF fm [unfolded first_match_def] m(2) ne]
    have "fst ?R = Some p \<and>
        mk_objs (snd ?R) p = Some (m\<lparr>mk_refcount := Suc (mk_refcount m)\<rparr>) \<and>
        (\<forall>c. to_insert = Some c \<longrightarrow> mk_objs (snd ?R) c = None) \<and>
        fscrypt_master_keys (snd ?R) = fscrypt_master_keys s"
      using ne by (cases to_insert) auto
    with m show "\<exists>p m. fst ?R = Some p \<and>
        in_table s p \<and> mk_objs s p = Some m \<and>
        mk_matches h (ci_master_key_descriptor ci) mode rk m \<and>
        mk_objs (snd ?R) p = Some (m\<lparr>mk_refcount := Suc (mk_refcount m)\<rparr>) \<and>
        (\<forall>c. to_insert = Some c \<longrightarrow> mk_objs (snd ?R) c = None) \<and>
        fscrypt_master_keys (snd ?R) = fscrypt_master_keys s"
      by blast
  qed
next
  let ?R = "find_or_insert_master_key h to_insert rk mode ci s"
  show "\<not> (\<exists>p m. in_table s p \<and> mk_objs s p = Some m \<and>
        mk_matches h (ci_master_key_descriptor ci) mode rk m) \<longrightarrow>
     fst ?R = to_insert \<and> mk_objs (snd ?R) = mk_objs s \<and>
     (\<forall>c. to_insert = Some c \<longrightarrow> in_table (snd ?R) c) \<and>
     (\<forall>q. in_table s q \<longrightarrow> in_table (snd ?R) q)"
  proof
    assume "\<not> (\<exists>p m. in_table s p \<and> mk_objs s p = Some m \<and>
        mk_matches h (ci_master_key_descriptor ci) mode rk m)"
    from find_or_insert_not_found [OF first_match_None [OF this, unfolded first_match_def],
           of to_insert]
    have r: "fst ?R = to_insert" and o: "mk_objs (snd ?R) = mk_objs s"
      and tb: "fscrypt_master_keys (snd ?R) =
           (case to_insert of
              None \<Rightarrow> fscrypt_master_keys s
            | Some c \<Rightarrow>
                (fscrypt_master_keys s)
                  (hash_min h (take (sizeof_long h) (ci_master_key_descriptor ci)) :=
                     c # fscrypt_master_keys s
                           (hash_min h (take (sizeof_long h) (ci_master_key_descriptor ci)))))"
      by blast+
    have "(\<forall>c. to_insert = Some c \<longrightarrow> in_table (snd ?R) c) \<and>
          (\<forall>q. in_table s q \<longrightarrow> in_table (snd ?R) q)"
    proof (cases to_insert)
      case None
      with tb have "fscrypt_master_keys (snd ?R) = fscrypt_master_keys s" by simp
      from in_table_same [OF this] None show ?thesis by simp
    next
      case (Some c)
      with tb have "fscrypt_master_keys (snd ?R) =
          (fscrypt_master_keys s)
            (hash_min h (take (sizeof_long h) (ci_master_key_descriptor ci)) :=
               c # fscrypt_master_keys s
                     (hash_min h (take (sizeof_long h) (ci_master_key_descriptor ci))))"
        by simp
      from in_table_hash_add [OF this] Some show ?thesis by simp
    qed
    with r o show "fst ?R = to_insert \<and> mk_objs (snd ?R) = mk_objs s \<and>
     (\<forall>c. to_insert = Some c \<longrightarrow> in_table (snd ?R) c) \<and>
     (\<forall>q. in_table s q \<longrightarrow> in_table (snd ?R) q)"
      by blast
  qed
next
  show "\<forall>e1 ci1 m1 rk1 i1 p1 s1 e2 ci2 m2 rk2 i2 p2 s2.
       (\<forall>c. kzalloc_master_key e1 = Some c \<longrightarrow> mk_objs s c = None) \<and>
       (\<forall>c. kzalloc_master_key e2 = Some c \<longrightarrow> mk_objs s1 c = None) \<and>
       keysize (available_modes h m1) \<le> length rk1 \<and>
       keysize (available_modes h m2) \<le> length rk2 \<and>
       fscrypt_get_master_key h e1 ci1 m1 rk1 i1 s = (Inr (Some p1), s1) \<and>
       fscrypt_get_master_key h e2 ci2 m2 rk2 i2 s1 = (Inr (Some p2), s2) \<longrightarrow>
       (p1 = p2) =
         (take (FS_KEY_DESCRIPTOR_SIZE h) (ci_master_key_descriptor ci1) =
            take (FS_KEY_DESCRIPTOR_SIZE h) (ci_master_key_descriptor ci2) \<and>
          m1 = m2 \<and>
          take (keysize (available_modes h m1)) rk1 =
            take (keysize (available_modes h m1)) rk2)"
    using sharing [OF ok bb] by blast
qed


theorem find_or_insert_master_key_shares_witness:
  "(\<exists>p m. fst (find_or_insert_master_key example_hdr None (replicate 64 7) 1 example_info
               example_table_state) = Some p \<and>
      in_table example_table_state p \<and> mk_objs example_table_state p = Some m \<and>
      mk_objs (snd (find_or_insert_master_key example_hdr None (replicate 64 7) 1
               example_info example_table_state)) p =
        Some (m\<lparr>mk_refcount := Suc (mk_refcount m)\<rparr>)) \<and>
   fst (find_or_insert_master_key example_hdr (Some 9) (replicate 64 9) 1 example_info
          example_table_state) = Some 9 \<and>
   in_table (snd (find_or_insert_master_key example_hdr (Some 9) (replicate 64 9) 1
          example_info example_table_state)) 9 \<and>
   fst (fscrypt_get_master_key example_hdr (example_env\<lparr>kzalloc_master_key := Some 2\<rparr>)
          example_info 1 (replicate 64 7) example_inode
          (snd (fscrypt_get_master_key example_hdr example_env example_info 1
                  (replicate 64 7) example_inode example_state))) =
     fst (fscrypt_get_master_key example_hdr example_env example_info 1
            (replicate 64 7) example_inode example_state) \<and>
   fst (fscrypt_get_master_key example_hdr (example_env\<lparr>kzalloc_master_key := Some 2\<rparr>)
          example_info 1 (replicate 64 9) example_inode
          (snd (fscrypt_get_master_key example_hdr example_env example_info 1
                  (replicate 64 7) example_inode example_state))) \<noteq>
     fst (fscrypt_get_master_key example_hdr example_env example_info 1
            (replicate 64 7) example_inode example_state)"
proof -
  let ?e2 = "example_env\<lparr>kzalloc_master_key := Some 2\<rparr>"
  let ?g1 = "fscrypt_get_master_key example_hdr example_env example_info 1
               (replicate 64 7) example_inode example_state"
  let ?g2 = "fscrypt_get_master_key example_hdr ?e2 example_info 1 (replicate 64 7)
               example_inode (snd ?g1)"
  let ?g3 = "fscrypt_get_master_key example_hdr ?e2 example_info 1 (replicate 64 9)
               example_inode (snd ?g1)"
  have bb: "sizeof_long example_hdr \<le> FS_KEY_DESCRIPTOR_SIZE example_hdr"
    by (simp add: example_hdr_def)
  have ks: "keysize (available_modes example_hdr 1) = 64"
    by (simp add: example_hdr_def available_modes_def)
  have okt: "table_ok example_hdr example_table_state"
    by (auto simp: table_ok_def example_table_state_def example_master_key_def
          example_hdr_def split: if_splits)
  have oke: "table_ok example_hdr example_state"
    by (simp add: table_ok_def example_state_def)
  have it: "in_table example_table_state 7"
    unfolding in_table_def by (rule exI [of _ 8]) (simp add: example_table_state_def)
  have only: "in_table example_table_state p \<Longrightarrow> p = 7" for p
    by (auto simp: in_table_def example_table_state_def split: if_splits)
  have o7: "mk_objs example_table_state 7 = Some example_master_key"
    by (simp add: example_table_state_def)
  have m7: "mk_matches example_hdr (ci_master_key_descriptor example_info) 1
              (replicate 64 7) example_master_key"
    by (simp add: mk_matches_def example_info_def example_master_key_def)
  have n7: "\<not> mk_matches example_hdr (ci_master_key_descriptor example_info) 1
              (replicate 64 9) example_master_key"
    by code_simp
  note c = find_or_insert_master_key_shares
  have pA: "(\<forall>c. (None :: nat option) = Some c \<longrightarrow> \<not> in_table example_table_state c) \<and>
     (\<exists>p m. in_table example_table_state p \<and> mk_objs example_table_state p = Some m \<and>
        mk_matches example_hdr (ci_master_key_descriptor example_info) 1 (replicate 64 7) m)"
    using it o7 m7 by blast
  from c [OF okt bb, THEN conjunct1, rule_format, OF pA]
  have A: "\<exists>p m. fst (find_or_insert_master_key example_hdr None (replicate 64 7) 1
               example_info example_table_state) = Some p \<and>
      in_table example_table_state p \<and> mk_objs example_table_state p = Some m \<and>
      mk_objs (snd (find_or_insert_master_key example_hdr None (replicate 64 7) 1
               example_info example_table_state)) p =
        Some (m\<lparr>mk_refcount := Suc (mk_refcount m)\<rparr>)"
    by blast
  have pB: "\<not> (\<exists>p m. in_table example_table_state p \<and>
        mk_objs example_table_state p = Some m \<and>
        mk_matches example_hdr (ci_master_key_descriptor example_info) 1 (replicate 64 9) m)"
    using only o7 n7 by auto
  from c [OF okt bb, THEN conjunct2, THEN conjunct1, rule_format, OF pB, of "Some 9"]
  have B: "fst (find_or_insert_master_key example_hdr (Some 9) (replicate 64 9) 1
             example_info example_table_state) = Some 9"
    and B': "in_table (snd (find_or_insert_master_key example_hdr (Some 9) (replicate 64 9) 1
             example_info example_table_state)) 9"
    by blast+
  have "fst ?g1 = Inr (Some 1)" "fst ?g2 = Inr (Some 1)" "fst ?g3 = Inr (Some 2)"
    by code_simp+
  then have g1: "?g1 = (Inr (Some 1), snd ?g1)"
    and g2: "?g2 = (Inr (Some 1), snd ?g2)"
    and g3: "?g3 = (Inr (Some 2), snd ?g3)"
    by (simp_all add: prod_eq_iff)
  have f1: "\<forall>c. kzalloc_master_key example_env = Some c \<longrightarrow> mk_objs example_state c = None"
    by (simp add: example_state_def)
  have "mk_objs (snd ?g1) 2 = None"
    by code_simp
  then have f2: "\<forall>c. kzalloc_master_key ?e2 = Some c \<longrightarrow> mk_objs (snd ?g1) c = None"
    by simp
  have l: "keysize (available_modes example_hdr 1) \<le> length (replicate 64 (7::u8))"
    "keysize (available_modes example_hdr 1) \<le> length (replicate 64 (9::u8))"
    by code_simp+
  have pD2: "(\<forall>c. kzalloc_master_key example_env = Some c \<longrightarrow> mk_objs example_state c = None) \<and>
       (\<forall>c. kzalloc_master_key ?e2 = Some c \<longrightarrow> mk_objs (snd ?g1) c = None) \<and>
       keysize (available_modes example_hdr 1) \<le> length (replicate 64 (7::u8)) \<and>
       keysize (available_modes example_hdr 1) \<le> length (replicate 64 (7::u8)) \<and>
       ?g1 = (Inr (Some 1), snd ?g1) \<and> ?g2 = (Inr (Some 1), snd ?g2)"
    using f1 f2 l g1 g2 by blast
  have pD3: "(\<forall>c. kzalloc_master_key example_env = Some c \<longrightarrow> mk_objs example_state c = None) \<and>
       (\<forall>c. kzalloc_master_key ?e2 = Some c \<longrightarrow> mk_objs (snd ?g1) c = None) \<and>
       keysize (available_modes example_hdr 1) \<le> length (replicate 64 (7::u8)) \<and>
       keysize (available_modes example_hdr 1) \<le> length (replicate 64 (9::u8)) \<and>
       ?g1 = (Inr (Some 1), snd ?g1) \<and> ?g3 = (Inr (Some 2), snd ?g3)"
    using f1 f2 l g1 g3 by blast
  note d = c [OF oke bb, THEN conjunct2, THEN conjunct2, rule_format]
  from d [OF pD2]
  have D2: "((1::nat) = 1) =
         (take (FS_KEY_DESCRIPTOR_SIZE example_hdr) (ci_master_key_descriptor example_info) =
            take (FS_KEY_DESCRIPTOR_SIZE example_hdr) (ci_master_key_descriptor example_info) \<and>
          (1::nat) = 1 \<and>
          take (keysize (available_modes example_hdr 1)) (replicate 64 (7::u8)) =
            take (keysize (available_modes example_hdr 1)) (replicate 64 7))" .
  from d [OF pD3]
  have D3: "((1::nat) = 2) =
         (take (FS_KEY_DESCRIPTOR_SIZE example_hdr) (ci_master_key_descriptor example_info) =
            take (FS_KEY_DESCRIPTOR_SIZE example_hdr) (ci_master_key_descriptor example_info) \<and>
          (1::nat) = 1 \<and>
          take (keysize (available_modes example_hdr 1)) (replicate 64 (7::u8)) =
            take (keysize (available_modes example_hdr 1)) (replicate 64 9))" .
  have E2: "fst ?g2 = fst ?g1" and E3: "fst ?g3 \<noteq> fst ?g1"
    using g1 g2 g3 by (metis fst_conv, simp add: prod_eq_iff)
  from A B B' E2 E3 show ?thesis
    by (intro conjI)
qed

subsection \<open>The invariant of the table\<close>

text \<open>The invariant holds for the empty table and survives \<^verbatim>\<open>put_master_key\<close>.\<close>

lemma table_ok_empty:
  "fscrypt_master_keys s = (\<lambda>b. []) \<Longrightarrow> table_ok h s"
  by (simp add: table_ok_def)

lemma put_master_key_fields:
  "(fscrypt_master_keys (put_master_key p s) = fscrypt_master_keys s \<and>
    (\<forall>q m. mk_objs s q = Some m \<longrightarrow>
       (\<exists>m'. mk_objs (put_master_key p s) q = Some m' \<and>
             mk_descriptor m' = mk_descriptor m))) \<or>
   (fscrypt_master_keys (put_master_key p s) =
      (\<lambda>b. removeAll p (fscrypt_master_keys s b)) \<and>
    mk_objs (put_master_key p s) = (mk_objs s)(p := None))"
  by (auto simp: put_master_key_def refcount_dec_and_lock_def hash_del_def
        free_master_key_def kzfree_master_key_def Let_def split: option.splits)

lemma table_ok_put_master_key:
  assumes "table_ok h s"
  shows "table_ok h (put_master_key p s)"
  using put_master_key_fields [of p s]
proof
  assume a: "fscrypt_master_keys (put_master_key p s) = fscrypt_master_keys s \<and>
    (\<forall>q m. mk_objs s q = Some m \<longrightarrow>
       (\<exists>m'. mk_objs (put_master_key p s) q = Some m' \<and>
             mk_descriptor m' = mk_descriptor m))"
  show ?thesis
    unfolding table_ok_def
  proof (intro allI impI)
    fix b q
    assume "q \<in> set (fscrypt_master_keys (put_master_key p s) b)"
    with a have "q \<in> set (fscrypt_master_keys s b)" by simp
    from table_okD [OF assms this] obtain m where
      m: "mk_objs s q = Some m" "hash_min h (take (sizeof_long h) (mk_descriptor m)) = b"
      by blast
    with a obtain m' where "mk_objs (put_master_key p s) q = Some m'"
      "mk_descriptor m' = mk_descriptor m"
      by blast
    with m(2) show "\<exists>m. mk_objs (put_master_key p s) q = Some m \<and>
        hash_min h (take (sizeof_long h) (mk_descriptor m)) = b"
      by simp
  qed
next
  assume a: "fscrypt_master_keys (put_master_key p s) =
      (\<lambda>b. removeAll p (fscrypt_master_keys s b)) \<and>
    mk_objs (put_master_key p s) = (mk_objs s)(p := None)"
  show ?thesis
    unfolding table_ok_def
  proof (intro allI impI)
    fix b q
    assume "q \<in> set (fscrypt_master_keys (put_master_key p s) b)"
    with a have q: "q \<in> set (fscrypt_master_keys s b)" "q \<noteq> p" by simp_all
    from table_okD [OF assms q(1)] q(2) a
    show "\<exists>m. mk_objs (put_master_key p s) q = Some m \<and>
        hash_min h (take (sizeof_long h) (mk_descriptor m)) = b"
      by simp
  qed
qed

end
